theory Spec2Isabelle
  imports Complex_Main "HOL-Library.Sublist"
begin

section \<open>Platform values used by the helpers\<close>

subsection \<open>URLSearchParams\<close>

text \<open>
  A \<open>URLSearchParams\<close> object is an ordered list of name/value pairs; duplicates are
  allowed. \<open>get\<close> returns the value of the first pair with the name (\<open>null\<close>, here
  \<open>None\<close>, when there is none); \<open>set\<close> overwrites the first pair with the name and
  removes the others, or appends a pair when the name is new; \<open>delete\<close> removes every
  pair with the name; \<open>getAll\<close> lists the values of a name in order.
\<close>

type_synonym URLSearchParams = "(string \<times> string) list"

definition params_get :: "URLSearchParams \<Rightarrow> string \<Rightarrow> string option" where
  "params_get ps k = map_of ps k"

definition params_getAll :: "URLSearchParams \<Rightarrow> string \<Rightarrow> string list" where
  "params_getAll ps k = map snd (filter (\<lambda>p. fst p = k) ps)"

definition params_delete :: "URLSearchParams \<Rightarrow> string \<Rightarrow> URLSearchParams" where
  "params_delete ps k = filter (\<lambda>p. fst p \<noteq> k) ps"

fun params_set :: "URLSearchParams \<Rightarrow> string \<Rightarrow> string \<Rightarrow> URLSearchParams" where
  "params_set [] k v = [(k, v)]"
| "params_set (p # ps) k v =
     (if fst p = k then (k, v) # params_delete ps k else p # params_set ps k v)"

text \<open>\<open>a || b\<close> on a value that is \<open>null\<close> or a string: the empty string is falsy.\<close>

definition or_else :: "string option \<Rightarrow> string \<Rightarrow> string" where
  "or_else a b = (case a of None \<Rightarrow> b | Some s \<Rightarrow> if s = [] then b else s)"

subsection \<open>Strings\<close>

text \<open>
  Strings are byte strings (the UTF-8 encoding of the text). \<open>join\<close> is
  \<open>Array.prototype.join\<close>, \<open>split_on\<close> is \<open>String.prototype.split\<close> with a
  one-character separator, \<open>str_includes\<close> is \<open>String.prototype.includes\<close>, and a string
  or \<open>null\<close> is truthy when it is a non-empty string.
\<close>

fun join :: "string \<Rightarrow> string list \<Rightarrow> string" where
  "join sep [] = []"
| "join sep [x] = x"
| "join sep (x # y # ys) = x @ sep @ join sep (y # ys)"

fun split_on :: "char \<Rightarrow> string \<Rightarrow> string list" where
  "split_on d [] = [[]]"
| "split_on d (c # cs) =
     (if c = d then [] # split_on d cs
      else (case split_on d cs of x # xs \<Rightarrow> (c # x) # xs | [] \<Rightarrow> [[c]]))"

definition str_includes :: "string \<Rightarrow> string \<Rightarrow> bool" where
  "str_includes s part = sublist part s"

definition truthy :: "string option \<Rightarrow> bool" where
  "truthy a = (case a of None \<Rightarrow> False | Some s \<Rightarrow> s \<noteq> [])"

subsection \<open>Serialising and parsing a query string\<close>

text \<open>
  \<open>URLSearchParams.toString\<close> writes each pair as \<open>name=value\<close> and joins the pairs
  with \<open>&\<close>; in names and values the ASCII letters and digits and \<open>* - . _\<close> stay,
  a space becomes \<open>+\<close>, and every other byte becomes \<open>%XX\<close>. Parsing a query string
  splits at \<open>&\<close>, drops empty pieces, splits each piece at its first \<open>=\<close> and decodes
  \<open>+\<close> and \<open>%XX\<close>.
\<close>

definition is_alnum :: "char \<Rightarrow> bool" where
  "is_alnum c = (let n = (of_char c :: nat) in
     (48 \<le> n \<and> n \<le> 57) \<or> (65 \<le> n \<and> n \<le> 90) \<or> (97 \<le> n \<and> n \<le> 122))"

definition is_unreserved :: "char \<Rightarrow> bool" where
  "is_unreserved c = (is_alnum c \<or> c \<in> {CHR ''*'', CHR ''-'', CHR ''.'', CHR ''_''})"

definition hex_digit :: "nat \<Rightarrow> char" where
  "hex_digit n = (if n < 10 then char_of (48 + n) else char_of (55 + n))"

definition unhex :: "char \<Rightarrow> nat option" where
  "unhex c = (let n = (of_char c :: nat) in
     if 48 \<le> n \<and> n \<le> 57 then Some (n - 48)
     else if 65 \<le> n \<and> n \<le> 70 then Some (n - 55)
     else if 97 \<le> n \<and> n \<le> 102 then Some (n - 87)
     else None)"

definition encode_byte :: "char \<Rightarrow> string" where
  "encode_byte c =
     (if is_unreserved c then [c]
      else if c = CHR '' '' then ''+''
      else [CHR ''%'', hex_digit (of_char c div 16), hex_digit (of_char c mod 16)])"

definition urlencode :: "string \<Rightarrow> string" where
  "urlencode s = concat (map encode_byte s)"

fun urldecode :: "string \<Rightarrow> string" where
  "urldecode [] = []"
| "urldecode (c # cs) =
     (if c = CHR ''+'' then CHR '' '' # urldecode cs
      else if c = CHR ''%'' then
        (case cs of
           h # l # r \<Rightarrow>
             (case (unhex h, unhex l) of
                (Some a, Some b) \<Rightarrow> char_of (16 * a + b) # urldecode r
              | _ \<Rightarrow> c # urldecode cs)
         | _ \<Rightarrow> c # urldecode cs)
      else c # urldecode cs)"

definition format_pair :: "string \<times> string \<Rightarrow> string" where
  "format_pair p = urlencode (fst p) @ ''='' @ urlencode (snd p)"

definition params_toString :: "URLSearchParams \<Rightarrow> string" where
  "params_toString ps = join ''&'' (map format_pair ps)"

definition parse_pair :: "string \<Rightarrow> string \<times> string" where
  "parse_pair s = (urldecode (takeWhile (\<lambda>c. c \<noteq> CHR ''='') s),
                   urldecode (drop 1 (dropWhile (\<lambda>c. c \<noteq> CHR ''='') s)))"

definition params_parse :: "string \<Rightarrow> URLSearchParams" where
  "params_parse s = map parse_pair (filter (\<lambda>x. x \<noteq> []) (split_on CHR ''&'' s))"

text \<open>The values of \<open>page\<close> in a URL search string \<open>?...\<close>, in order.\<close>

definition page_values :: "string \<Rightarrow> string list option" where
  "page_values url =
     (case url of
        [] \<Rightarrow> None
      | c # q \<Rightarrow> if c = CHR ''?'' then Some (params_getAll (params_parse q) ''page'') else None)"

subsection \<open>Numbers\<close>

text \<open>
  The numbers of the pagination helpers are integers or \<open>NaN\<close>. Arithmetic and
  comparison follow the language: an operation with a \<open>NaN\<close> operand gives \<open>NaN\<close>,
  a comparison with a \<open>NaN\<close> operand is false, and \<open>Math.max\<close> returns \<open>NaN\<close> as
  soon as one argument is \<open>NaN\<close>. Finite values are kept exact (the rounding of
  doubles beyond \<open>2 ^ 53\<close> is not modelled).
\<close>

datatype jsnum = NaN | Num int

fun js_add :: "jsnum \<Rightarrow> jsnum \<Rightarrow> jsnum" where
  "js_add (Num a) (Num b) = Num (a + b)"
| "js_add _ _ = NaN"

fun js_sub :: "jsnum \<Rightarrow> jsnum \<Rightarrow> jsnum" where
  "js_sub (Num a) (Num b) = Num (a - b)"
| "js_sub _ _ = NaN"

fun js_mul :: "jsnum \<Rightarrow> jsnum \<Rightarrow> jsnum" where
  "js_mul (Num a) (Num b) = Num (a * b)"
| "js_mul _ _ = NaN"

fun js_ge :: "jsnum \<Rightarrow> jsnum \<Rightarrow> bool" where
  "js_ge (Num a) (Num b) = (b \<le> a)"
| "js_ge _ _ = False"

fun Math_max :: "jsnum \<Rightarrow> jsnum \<Rightarrow> jsnum" where
  "Math_max (Num a) (Num b) = Num (max a b)"
| "Math_max _ _ = NaN"

text \<open>
  \<open>parseInt(s, 10)\<close>: leading white space is skipped, one sign is read, then the longest
  run of decimal digits; when that run is empty the result is \<open>NaN\<close>. Whatever follows
  the digits is ignored.
\<close>

definition is_white_space :: "char \<Rightarrow> bool" where
  "is_white_space c = (of_char c \<in> {9, 10, 11, 12, 13, 32 :: nat})"

definition is_digit :: "char \<Rightarrow> bool" where
  "is_digit c = (48 \<le> (of_char c :: nat) \<and> (of_char c :: nat) \<le> 57)"

definition digits_value :: "string \<Rightarrow> int" where
  "digits_value ds = foldl (\<lambda>acc c. 10 * acc + (of_char c - 48)) 0 ds"

definition parseInt :: "string \<Rightarrow> jsnum" where
  "parseInt s =
     (let s1 = dropWhile is_white_space s;
          neg = (case s1 of c # _ \<Rightarrow> c = CHR ''-'' | [] \<Rightarrow> False);
          s2 = (case s1 of c # r \<Rightarrow> if c = CHR ''-'' \<or> c = CHR ''+'' then r else s1 | [] \<Rightarrow> s1);
          ds = takeWhile is_digit s2
      in if ds = [] then NaN
         else Num (if neg then - digits_value ds else digits_value ds))"

section \<open>Pagination helpers\<close>

record PaginationParams =
  page :: jsnum
  limit :: jsnum

definition DEFAULT_PAGE_SIZE :: string where
  \<comment> \<open>\<open>String(DEFAULT_PAGE_SIZE)\<close>, the constant being 20\<close>
  "DEFAULT_PAGE_SIZE = ''20''"

definition parsePaginationParams :: "URLSearchParams \<Rightarrow> PaginationParams" where
  "parsePaginationParams searchParams =
     \<lparr> page = Math_max (Num 1) (parseInt (or_else (params_get searchParams ''page'') ''1'')),
       limit = Math_max (Num 1)
                 (parseInt (or_else (params_get searchParams ''limit'') DEFAULT_PAGE_SIZE)) \<rparr>"

record SupabaseRange =
  range_from :: jsnum
  range_to :: jsnum

definition getSupabaseRange :: "jsnum \<Rightarrow> jsnum \<Rightarrow> SupabaseRange" where
  "getSupabaseRange page' limit' =
     (let frm = js_mul (js_sub page' (Num 1)) limit';
          til = js_sub (js_add frm limit') (Num 1)
      in \<lparr> range_from = frm, range_to = til \<rparr>)"


section \<open>Sorting helpers\<close>

datatype SortOrder = Asc | Desc

fun SortOrder_text :: "SortOrder \<Rightarrow> string" where
  "SortOrder_text Asc = ''asc''"
| "SortOrder_text Desc = ''desc''"

record SortParams =
  sortBy :: "string option"
  sortOrder :: SortOrder

definition parseSortParams :: "URLSearchParams \<Rightarrow> string \<Rightarrow> SortOrder \<Rightarrow> SortParams" where
  "parseSortParams searchParams defaultSortBy defaultSortOrder =
     (let sortBy' = or_else (params_get searchParams ''sort'') defaultSortBy;
          sortOrder' = or_else (params_get searchParams ''order'') (SortOrder_text defaultSortOrder)
      in if sortOrder' \<noteq> ''asc'' \<and> sortOrder' \<noteq> ''desc''
         then \<lparr> sortBy = Some sortBy', sortOrder = defaultSortOrder \<rparr>
         else \<lparr> sortBy = Some sortBy',
                sortOrder = (if sortOrder' = ''asc'' then Asc else Desc) \<rparr>)"

section \<open>Client status badge\<close>



definition Object_prototype_names :: "string list" where
  "Object_prototype_names =
     [ ''constructor'', ''hasOwnProperty'', ''isPrototypeOf'', ''propertyIsEnumerable'',
       ''toLocaleString'', ''toString'', ''valueOf'', ''__proto__'',
       ''__defineGetter__'', ''__defineSetter__'', ''__lookupGetter__'', ''__lookupSetter__'' ]"


section \<open>Filtering helpers\<close>

record DateRangeFilter =
  dateFrom :: "string option"
  dateTo :: "string option"

record FilterParams =
  status :: "string list option"
  category :: "string list option"
  dateRange :: "DateRangeFilter option"
  search :: "string option"

text \<open>The third argument of \<open>buildFilterUrl\<close>: \<open>string | string[] | null\<close>.\<close>

datatype FilterValue = FilterNull | FilterString string | FilterArray "string list"

fun buildFilterUrl :: "URLSearchParams \<Rightarrow> string \<Rightarrow> FilterValue \<Rightarrow> string" where
  "buildFilterUrl currentParams filterKey filterValue =
     (let params = currentParams;
          params1 =
            (case filterValue of
               FilterNull \<Rightarrow> params_delete params filterKey
             | FilterArray vs \<Rightarrow>
                 if vs = [] then params_delete params filterKey
                 else params_set params filterKey (join '','' vs)
             | FilterString v \<Rightarrow> params_set params filterKey v);
          params2 = params_set params1 ''page'' ''1''
      in ''?'' @ params_toString params2)"

definition clearAllFilters :: "URLSearchParams \<Rightarrow> string list \<Rightarrow> string" where
  "clearAllFilters currentParams preserveKeys =
     (let params =
            foldl (\<lambda>acc key.
                     case params_get currentParams key of
                       None \<Rightarrow> acc
                     | Some v \<Rightarrow> if v = [] then acc else params_set acc key v)
                  [] preserveKeys;
          params1 = params_set params ''page'' ''1''
      in ''?'' @ params_toString params1)"

section \<open>Sort URL\<close>

definition buildSortUrl ::
  "URLSearchParams \<Rightarrow> string \<Rightarrow> string option \<Rightarrow> SortOrder \<Rightarrow> string" where
  "buildSortUrl currentParams sortBy' currentSortBy currentSortOrder =
     (let params = currentParams;
          params1 =
            (if Some sortBy' = currentSortBy
             then params_set params ''order''
                    (if currentSortOrder = Asc then ''desc'' else ''asc'')
             else (let isTextColumn = str_includes sortBy' ''name'' \<or> str_includes sortBy' ''email''
                   in params_set (params_set params ''sort'' sortBy') ''order''
                        (if isTextColumn then ''asc'' else ''desc'')));
          params2 = params_set params1 ''page'' ''1''
      in ''?'' @ params_toString params2)"

section \<open>Saved views\<close>

record ViewState =
  filters :: FilterParams
  sort' :: SortParams

definition set_if :: "bool \<Rightarrow> string \<Rightarrow> string \<Rightarrow> URLSearchParams \<Rightarrow> URLSearchParams" where
  \<comment> \<open>\<open>if (cond) params.set(k, v)\<close>\<close>
  "set_if cond k v params = (if cond then params_set params k v else params)"

definition buildUrlFromViewState :: "ViewState \<Rightarrow> URLSearchParams option \<Rightarrow> string" where
  "buildUrlFromViewState state baseParams =
     (let params = (case baseParams of None \<Rightarrow> [] | Some b \<Rightarrow> b);
          params1 =
            (case sortBy (sort' state) of
               None \<Rightarrow> params
             | Some sb \<Rightarrow>
                 if sb = [] then params
                 else params_set (params_set params ''sort'' sb) ''order''
                        (SortOrder_text (sortOrder (sort' state))));
          params2 =
            (case status (filters state) of
               None \<Rightarrow> params1
             | Some st \<Rightarrow> set_if (length st > 0) ''status'' (join '','' st) params1);
          params3 =
            (case category (filters state) of
               None \<Rightarrow> params2
             | Some ct \<Rightarrow> set_if (length ct > 0) ''category'' (join '','' ct) params2);
          params4 =
            (case dateRange (filters state) of
               None \<Rightarrow> params3
             | Some dr \<Rightarrow>
                 (let p1 = (case dateFrom dr of
                              None \<Rightarrow> params3
                            | Some f \<Rightarrow> set_if (f \<noteq> []) ''date_from'' f params3)
                  in (case dateTo dr of
                        None \<Rightarrow> p1
                      | Some t \<Rightarrow> set_if (t \<noteq> []) ''date_to'' t p1)));
          params5 =
            (case search (filters state) of
               None \<Rightarrow> params4
             | Some q \<Rightarrow> set_if (q \<noteq> []) ''q'' q params4);
          params6 = params_set params5 ''page'' ''1''
      in ''?'' @ params_toString params6)"

section \<open>JSON text\<close>

text \<open>
  The values a view state is made of: \<open>null\<close>, booleans, strings, arrays and objects
  (an object is the list of its properties in order). \<open>JSON.stringify\<close> writes a value
  without white space and escapes the quote, the backslash and the control characters
  in strings. \<open>JSON.parse\<close> reads the grammar of these values, white space between
  tokens and every string escape included; number literals are outside this fragment
  (a view state holds none) and are read as a syntax error.
\<close>

datatype json =
  JNull
| JBool bool
| JString string
| JArray "json list"
| JObject "(string \<times> json) list"

definition hex_lower :: "nat \<Rightarrow> char" where
  "hex_lower n = (if n < 10 then char_of (48 + n) else char_of (87 + n))"

definition escape_char :: "char \<Rightarrow> string" where
  "escape_char c =
     (if c = CHR 0x22 then [CHR 0x5C, CHR 0x22]
      else if c = CHR 0x5C then [CHR 0x5C, CHR 0x5C]
      else if c = CHR 0x08 then [CHR 0x5C, CHR ''b'']
      else if c = CHR 0x0C then [CHR 0x5C, CHR ''f'']
      else if c = CHR 0x0A then [CHR 0x5C, CHR ''n'']
      else if c = CHR 0x0D then [CHR 0x5C, CHR ''r'']
      else if c = CHR 0x09 then [CHR 0x5C, CHR ''t'']
      else if (of_char c :: nat) < 32
      then [CHR 0x5C, CHR ''u'', CHR ''0'', CHR ''0'',
            hex_lower (of_char c div 16), hex_lower (of_char c mod 16)]
      else [c])"

definition quote :: "string \<Rightarrow> string" where
  "quote s = [CHR 0x22] @ concat (map escape_char s) @ [CHR 0x22]"

fun JSON_stringify :: "json \<Rightarrow> string" where
  "JSON_stringify JNull = ''null''"
| "JSON_stringify (JBool b) = (if b then ''true'' else ''false'')"
| "JSON_stringify (JString s) = quote s"
| "JSON_stringify (JArray xs) = ''['' @ join '','' (map JSON_stringify xs) @ '']''"
| "JSON_stringify (JObject kvs) =
     ''{'' @ join '','' (map (\<lambda>kv. quote (fst kv) @ '':'' @ JSON_stringify (snd kv)) kvs) @ ''}''"


definition is_json_space :: "char \<Rightarrow> bool" where
  "is_json_space c = (c = CHR 0x20 \<or> c = CHR 0x09 \<or> c = CHR 0x0A \<or> c = CHR 0x0D)"

definition skip_ws :: "string \<Rightarrow> string" where
  "skip_ws s = dropWhile is_json_space s"

definition strip_prefix :: "string \<Rightarrow> string \<Rightarrow> string option" where
  "strip_prefix p s = (if take (length p) s = p then Some (drop (length p) s) else None)"

definition utf8 :: "nat \<Rightarrow> string" where
  "utf8 u =
     (if u < 128 then [char_of u]
      else if u < 2048 then [char_of (192 + u div 64), char_of (128 + u mod 64)]
      else if u < 65536
      then [char_of (224 + u div 4096), char_of (128 + (u div 64) mod 64), char_of (128 + u mod 64)]
      else [char_of (240 + u div 262144), char_of (128 + (u div 4096) mod 64),
            char_of (128 + (u div 64) mod 64), char_of (128 + u mod 64)])"

definition hex4 :: "char \<Rightarrow> char \<Rightarrow> char \<Rightarrow> char \<Rightarrow> nat option" where
  "hex4 a b c d =
     (case (unhex a, unhex b, unhex c, unhex d) of
        (Some w, Some x, Some y, Some z) \<Rightarrow> Some (4096 * w + 256 * x + 16 * y + z)
      | _ \<Rightarrow> None)"

text \<open>The code unit of a \<open>\uXXXX\<close> escape at the head of the input, and what follows it.\<close>

definition unicode_escape :: "string \<Rightarrow> (nat \<times> string) option" where
  "unicode_escape s =
     (case s of
        b # u # h1 # h2 # h3 # h4 # r \<Rightarrow>
          if b = CHR 0x5C \<and> u = CHR ''u''
          then map_option (\<lambda>n. (n, r)) (hex4 h1 h2 h3 h4)
          else None
      | _ \<Rightarrow> None)"

definition simple_escape :: "char \<Rightarrow> char option" where
  "simple_escape e =
     (if e = CHR 0x22 then Some (CHR 0x22)
      else if e = CHR 0x5C then Some (CHR 0x5C)
      else if e = CHR ''/'' then Some (CHR ''/'')
      else if e = CHR ''b'' then Some (CHR 0x08)
      else if e = CHR ''f'' then Some (CHR 0x0C)
      else if e = CHR ''n'' then Some (CHR 0x0A)
      else if e = CHR ''r'' then Some (CHR 0x0D)
      else if e = CHR ''t'' then Some (CHR 0x09)
      else None)"

text \<open>The characters of a string literal after its opening quote, up to the closing one.\<close>

function parse_chars :: "string \<Rightarrow> (string \<times> string) option" where
  "parse_chars [] = None"
| "parse_chars (c # cs) =
     (if c = CHR 0x22 then Some ([], cs)
      else if c = CHR 0x5C then
        (case unicode_escape (c # cs) of
           Some (hi, r) \<Rightarrow>
             (case (if 55296 \<le> hi \<and> hi < 56320 then unicode_escape r else None) of
                Some (lo, r') \<Rightarrow>
                  if 56320 \<le> lo \<and> lo < 57344
                  then map_option (\<lambda>(s, rest).
                         (utf8 (65536 + (hi - 55296) * 1024 + (lo - 56320)) @ s, rest))
                         (parse_chars r')
                  else map_option (\<lambda>(s, rest). (utf8 hi @ s, rest)) (parse_chars r)
              | None \<Rightarrow> map_option (\<lambda>(s, rest). (utf8 hi @ s, rest)) (parse_chars r))
         | None \<Rightarrow>
             (case cs of
                [] \<Rightarrow> None
              | e # r \<Rightarrow>
                  (case simple_escape e of
                     None \<Rightarrow> None
                   | Some x \<Rightarrow> map_option (\<lambda>(s, rest). (x # s, rest)) (parse_chars r))))
      else if (of_char c :: nat) < 32 then None
      else map_option (\<lambda>(s, rest). (c # s, rest)) (parse_chars cs))"
  by pat_completeness auto

termination parse_chars
  by (relation "measure length")
     (auto simp add: unicode_escape_def split: list.splits if_splits)

text \<open>
  Object members in reading order become the properties of the object: a name that
  occurs again overwrites the value and keeps the place of its first occurrence.
\<close>

fun obj_put :: "string \<Rightarrow> json \<Rightarrow> (string \<times> json) list \<Rightarrow> (string \<times> json) list" where
  "obj_put k v [] = [(k, v)]"
| "obj_put k v (p # ps) = (if fst p = k then (k, v) # ps else p # obj_put k v ps)"

definition make_object :: "(string \<times> json) list \<Rightarrow> json" where
  "make_object kvs = JObject (foldl (\<lambda>acc kv. obj_put (fst kv) (snd kv) acc) [] kvs)"

text \<open>
  The value parser takes fuel: every call consumes one unit, and every call reads at
  least one character, so the length of the text plus one is always enough.
\<close>

fun parse_value :: "nat \<Rightarrow> string \<Rightarrow> (json \<times> string) option"
  and parse_elements :: "nat \<Rightarrow> string \<Rightarrow> (json list \<times> string) option"
  and parse_members :: "nat \<Rightarrow> string \<Rightarrow> ((string \<times> json) list \<times> string) option" where
  "parse_value 0 s = None"
| "parse_value (Suc n) s =
     (case skip_ws s of
        [] \<Rightarrow> None
      | c # r \<Rightarrow>
          if c = CHR 0x22 then map_option (\<lambda>(str, rest). (JString str, rest)) (parse_chars r)
          else if c = CHR ''['' then
            (case skip_ws r of
               [] \<Rightarrow> None
             | d # r' \<Rightarrow>
                 if d = CHR '']'' then Some (JArray [], r')
                 else map_option (\<lambda>(vs, rest). (JArray vs, rest)) (parse_elements n r))
          else if c = CHR ''{'' then
            (case skip_ws r of
               [] \<Rightarrow> None
             | d # r' \<Rightarrow>
                 if d = CHR ''}'' then Some (JObject [], r')
                 else map_option (\<lambda>(kvs, rest). (make_object kvs, rest)) (parse_members n r))
          else (case strip_prefix ''null'' (c # r) of
                  Some rest \<Rightarrow> Some (JNull, rest)
                | None \<Rightarrow>
                    (case strip_prefix ''true'' (c # r) of
                       Some rest \<Rightarrow> Some (JBool True, rest)
                     | None \<Rightarrow>
                         (case strip_prefix ''false'' (c # r) of
                            Some rest \<Rightarrow> Some (JBool False, rest)
                          | None \<Rightarrow> None))))"
| "parse_elements 0 s = None"
| "parse_elements (Suc n) s =
     (case parse_value n s of
        None \<Rightarrow> None
      | Some (v, r) \<Rightarrow>
          (case skip_ws r of
             [] \<Rightarrow> None
           | c # r' \<Rightarrow>
               if c = CHR '','' then map_option (\<lambda>(vs, rest). (v # vs, rest)) (parse_elements n r')
               else if c = CHR '']'' then Some ([v], r')
               else None))"
| "parse_members 0 s = None"
| "parse_members (Suc n) s =
     (case skip_ws s of
        [] \<Rightarrow> None
      | q # r \<Rightarrow>
          if q \<noteq> CHR 0x22 then None
          else (case parse_chars r of
                  None \<Rightarrow> None
                | Some (k, r1) \<Rightarrow>
                    (case skip_ws r1 of
                       [] \<Rightarrow> None
                     | c # r2 \<Rightarrow>
                         if c \<noteq> CHR '':'' then None
                         else (case parse_value n r2 of
                                 None \<Rightarrow> None
                               | Some (v, r3) \<Rightarrow>
                                   (case skip_ws r3 of
                                      [] \<Rightarrow> None
                                    | d # r4 \<Rightarrow>
                                        if d = CHR '','' then
                                          map_option (\<lambda>(kvs, rest). ((k, v) # kvs, rest))
                                            (parse_members n r4)
                                        else if d = CHR ''}'' then Some ([(k, v)], r4)
                                        else None)))))"

definition JSON_parse :: "string \<Rightarrow> json option" where
  "JSON_parse s =
     (case parse_value (Suc (length s)) s of
        None \<Rightarrow> None
      | Some (v, rest) \<Rightarrow> if skip_ws rest = [] then Some v else None)"


fun distinct_keys :: "json \<Rightarrow> bool" where
  "distinct_keys (JArray xs) = (\<forall>x \<in> set xs. distinct_keys x)"
| "distinct_keys (JObject kvs) =
     (distinct (map fst kvs) \<and> (\<forall>kv \<in> set kvs. distinct_keys (snd kv)))"
| "distinct_keys _ = True"

text \<open>
  A value parses back when reading its text, followed by anything, gives the value and
  leaves what followed; \<open>member_text\<close> is the text of one property.
\<close>

definition parses_back :: "json \<Rightarrow> bool" where
  "parses_back j =
     (\<forall>n rest. length (JSON_stringify j) \<le> n \<longrightarrow>
        parse_value n (JSON_stringify j @ rest) = Some (j, rest))"

definition member_text :: "string \<times> json \<Rightarrow> string" where
  "member_text kv = quote (fst kv) @ '':'' @ JSON_stringify (snd kv)"

section \<open>Encoding and decoding a view state\<close>

text \<open>
  A view state as the object it is at run time: an optional property of
  \<open>FilterParams\<close> that is missing (or \<open>undefined\<close>) is no property of the object,
  \<open>string | null\<close> is a string or \<open>null\<close>.
\<close>

definition js_text :: "string option \<Rightarrow> json" where
  "js_text a = (case a of None \<Rightarrow> JNull | Some s \<Rightarrow> JString s)"

definition optional_member :: "string \<Rightarrow> json option \<Rightarrow> (string \<times> json) list" where
  "optional_member k a = (case a of None \<Rightarrow> [] | Some v \<Rightarrow> [(k, v)])"

definition js_of_DateRangeFilter :: "DateRangeFilter \<Rightarrow> json" where
  "js_of_DateRangeFilter dr =
     JObject [(''from'', js_text (dateFrom dr)), (''to'', js_text (dateTo dr))]"

definition js_of_FilterParams :: "FilterParams \<Rightarrow> json" where
  "js_of_FilterParams f =
     JObject
       (optional_member ''status'' (map_option (\<lambda>xs. JArray (map JString xs)) (status f))
        @ optional_member ''category'' (map_option (\<lambda>xs. JArray (map JString xs)) (category f))
        @ optional_member ''dateRange'' (map_option js_of_DateRangeFilter (dateRange f))
        @ optional_member ''search'' (map_option JString (search f)))"

definition js_of_SortParams :: "SortParams \<Rightarrow> json" where
  "js_of_SortParams sp =
     JObject [(''sortBy'', js_text (sortBy sp)),
              (''sortOrder'', JString (SortOrder_text (sortOrder sp)))]"

definition js_of_ViewState :: "ViewState \<Rightarrow> json" where
  "js_of_ViewState state =
     JObject [(''filters'', js_of_FilterParams (filters state)),
              (''sort'', js_of_SortParams (sort' state))]"

definition encodeViewState :: "json \<Rightarrow> string" where
  "encodeViewState state = JSON_stringify state"

definition decodeViewState :: "string \<Rightarrow> json" where
  "decodeViewState encoded =
     (case JSON_parse encoded of
        Some v \<Rightarrow> v
      | None \<Rightarrow>
          js_of_ViewState
            \<lparr> filters = \<lparr> status = None, category = None, dateRange = None, search = None \<rparr>,
              sort' = \<lparr> sortBy = None, sortOrder = Desc \<rparr> \<rparr>)"

section \<open>Generated columns of the schema\<close>

text \<open>
  A \<open>DECIMAL(p, s)\<close> column keeps \<open>s\<close> decimal places: a value stored in it is rounded
  to \<open>s\<close> places, ties away from zero, and an insert whose rounded value needs more
  than \<open>p - s\<close> digits before the point fails. Arithmetic on \<open>NULL\<close> gives \<open>NULL\<close>.
  \<open>deductible_amount\<close> is
  \<open>DECIMAL(10, 2) GENERATED ALWAYS AS (total * (business_use_percentage / 100))\<close> and
  the \<open>total\<close> of a mileage record is
  \<open>DECIMAL(10, 2) GENERATED ALWAYS AS (miles * rate_per_mile)\<close>; the quotient by 100 of
  a value with two decimal places is exact. Decimal values are rational numbers.
\<close>

datatype sql_error = NumericFieldOverflow

definition round_scale :: "nat \<Rightarrow> rat \<Rightarrow> rat" where
  "round_scale s x = sgn x * of_int \<lfloor>\<bar>x\<bar> * 10 ^ s + 1 / 2\<rfloor> / 10 ^ s"

definition store_numeric :: "nat \<Rightarrow> nat \<Rightarrow> rat option \<Rightarrow> sql_error + rat option" where
  "store_numeric p s v =
     (case v of
        None \<Rightarrow> Inr None
      | Some x \<Rightarrow>
          if \<bar>round_scale s x\<bar> < 10 ^ (p - s) then Inr (Some (round_scale s x))
          else Inl NumericFieldOverflow)"

definition expenses_deductible_amount :: "rat \<Rightarrow> rat option \<Rightarrow> sql_error + rat option" where
  "expenses_deductible_amount total' percentage =
     store_numeric 10 2
       (case percentage of
          None \<Rightarrow> None
        | Some pct \<Rightarrow> Some (total' * (pct / 100)))"



section \<open>Rows and tables\<close>

text \<open>
  A row of \<open>clients\<close>, \<open>saved_views\<close> or \<open>line_item_templates\<close> is the list of
  its columns. The rows of \<open>invoices\<close>, \<open>expenses\<close> and \<open>mileage\<close> name the columns
  the tax report reads, with the nullability of the schema (\<open>NOT NULL\<close> columns are
  plain values), and keep the other columns as a list; their \<open>_col\<close> function reads a
  column by name.
\<close>

datatype val = VNull | VText string | VNum rat | VBool bool

type_synonym row = "(string \<times> val) list"

definition row_col :: "row \<Rightarrow> string \<Rightarrow> val option" where
  "row_col r c = map_of r c"

definition text_val :: "string option \<Rightarrow> val" where
  "text_val a = (case a of None \<Rightarrow> VNull | Some s \<Rightarrow> VText s)"

definition num_val :: "rat option \<Rightarrow> val" where
  "num_val a = (case a of None \<Rightarrow> VNull | Some x \<Rightarrow> VNum x)"

definition bool_val :: "bool option \<Rightarrow> val" where
  "bool_val a = (case a of None \<Rightarrow> VNull | Some b \<Rightarrow> VBool b)"

record invoice_row =
  inv_user_id :: string
  inv_date :: string
  inv_status :: "string option"
  inv_total :: rat
  inv_other :: row

record expense_row =
  exp_user_id :: string
  exp_date :: string
  exp_total :: rat
  is_tax_deductible :: "bool option"
  business_use_percentage :: "rat option"
  tax_category :: "string option"
  deductible_amount :: "rat option"
  exp_other :: row

record mileage_row =
  mil_user_id :: string
  mil_date :: string
  miles :: rat
  rate_per_mile :: "rat option"
  mil_total :: "rat option"
  mil_other :: row

definition invoice_col :: "invoice_row \<Rightarrow> string \<Rightarrow> val option" where
  "invoice_col r c =
     (if c = ''user_id'' then Some (VText (inv_user_id r))
      else if c = ''date'' then Some (VText (inv_date r))
      else if c = ''status'' then Some (text_val (inv_status r))
      else if c = ''total'' then Some (VNum (inv_total r))
      else map_of (inv_other r) c)"

definition expense_col :: "expense_row \<Rightarrow> string \<Rightarrow> val option" where
  "expense_col r c =
     (if c = ''user_id'' then Some (VText (exp_user_id r))
      else if c = ''date'' then Some (VText (exp_date r))
      else if c = ''total'' then Some (VNum (exp_total r))
      else if c = ''is_tax_deductible'' then Some (bool_val (is_tax_deductible r))
      else if c = ''business_use_percentage'' then Some (num_val (business_use_percentage r))
      else if c = ''tax_category'' then Some (text_val (tax_category r))
      else if c = ''deductible_amount'' then Some (num_val (deductible_amount r))
      else map_of (exp_other r) c)"

definition mileage_col :: "mileage_row \<Rightarrow> string \<Rightarrow> val option" where
  "mileage_col r c =
     (if c = ''user_id'' then Some (VText (mil_user_id r))
      else if c = ''date'' then Some (VText (mil_date r))
      else if c = ''miles'' then Some (VNum (miles r))
      else if c = ''rate_per_mile'' then Some (num_val (rate_per_mile r))
      else if c = ''total'' then Some (num_val (mil_total r))
      else map_of (mil_other r) c)"

record database =
  clients :: "row list"
  saved_views :: "row list"
  line_item_templates :: "row list"
  invoices :: "invoice_row list"
  expenses :: "expense_row list"
  mileage :: "mileage_row list"

section \<open>Queries\<close>

text \<open>
  The query builder collects filters, orderings and a range; the database returns the
  rows that satisfy all filters, ordered, the range cut out of them, and the number of
  rows that satisfy the filters. \<open>q_eq\<close>, \<open>q_in\<close>, \<open>q_gte\<close>, \<open>q_lte\<close>, \<open>q_or\<close>,
  \<open>q_order\<close> and \<open>q_range\<close> are the builder's \<open>eq\<close>, \<open>in\<close>, \<open>gte\<close>, \<open>lte\<close>, \<open>or\<close>,
  \<open>order\<close> and \<open>range\<close>, and \<open>from_select\<close> is \<open>from(table).select('*')\<close>.
\<close>

datatype filter_cond =
  FEq string string
| FIn string "string list"
| FGte string string
| FLte string string
| FOr string

record query =
  conds :: "filter_cond list"
  orders :: "(string \<times> bool) list"
  window :: "(jsnum \<times> jsnum) option"

definition from_select :: query where
  "from_select = \<lparr> conds = [], orders = [], window = None \<rparr>"

definition q_filter :: "query \<Rightarrow> filter_cond \<Rightarrow> query" where
  "q_filter q c = q \<lparr> conds := conds q @ [c] \<rparr>"

definition q_eq :: "query \<Rightarrow> string \<Rightarrow> string \<Rightarrow> query" where
  "q_eq q c v = q_filter q (FEq c v)"

definition q_in :: "query \<Rightarrow> string \<Rightarrow> string list \<Rightarrow> query" where
  "q_in q c vs = q_filter q (FIn c vs)"

definition q_gte :: "query \<Rightarrow> string \<Rightarrow> string \<Rightarrow> query" where
  "q_gte q c v = q_filter q (FGte c v)"

definition q_lte :: "query \<Rightarrow> string \<Rightarrow> string \<Rightarrow> query" where
  "q_lte q c v = q_filter q (FLte c v)"

definition q_or :: "query \<Rightarrow> string \<Rightarrow> query" where
  "q_or q s = q_filter q (FOr s)"

definition q_order :: "query \<Rightarrow> string \<Rightarrow> bool \<Rightarrow> query" where
  "q_order q c ascending = q \<lparr> orders := orders q @ [(c, ascending)] \<rparr>"

definition q_range :: "query \<Rightarrow> jsnum \<Rightarrow> jsnum \<Rightarrow> query" where
  "q_range q a b = q \<lparr> window := Some (a, b) \<rparr>"

text \<open>
  What the database decides is a parameter: how a value that is not text compares
  with a literal, how \<open>gte\<close> and \<open>lte\<close> compare a column with a literal, which rows
  an \<open>or\<close> expression selects, how two column values are ordered, and which requests
  it rejects (given the query and the number of rows the filters select). A text
  column equals a literal when the two strings are equal.
\<close>

record engine =
  lit_eq :: "val \<Rightarrow> string \<Rightarrow> bool"
  cmp_gte :: "val \<Rightarrow> string \<Rightarrow> bool"
  cmp_lte :: "val \<Rightarrow> string \<Rightarrow> bool"
  or_holds :: "string \<Rightarrow> (string \<Rightarrow> val option) \<Rightarrow> bool"
  val_le :: "val option \<Rightarrow> val option \<Rightarrow> bool"
  rejects :: "query \<Rightarrow> nat \<Rightarrow> bool"

definition val_eq :: "engine \<Rightarrow> val \<Rightarrow> string \<Rightarrow> bool" where
  "val_eq e v l =
     (case v of
        VText s \<Rightarrow> s = l
      | VNull \<Rightarrow> False
      | _ \<Rightarrow> lit_eq e v l)"

fun holds :: "engine \<Rightarrow> (string \<Rightarrow> val option) \<Rightarrow> filter_cond \<Rightarrow> bool" where
  "holds e r (FEq c l) = (case r c of None \<Rightarrow> False | Some v \<Rightarrow> val_eq e v l)"
| "holds e r (FIn c ls) = (case r c of None \<Rightarrow> False | Some v \<Rightarrow> list_ex (val_eq e v) ls)"
| "holds e r (FGte c l) = (case r c of None \<Rightarrow> False | Some v \<Rightarrow> cmp_gte e v l)"
| "holds e r (FLte c l) = (case r c of None \<Rightarrow> False | Some v \<Rightarrow> cmp_lte e v l)"
| "holds e r (FOr s) = or_holds e s r"

definition select_rows ::
  "engine \<Rightarrow> ('r \<Rightarrow> string \<Rightarrow> val option) \<Rightarrow> filter_cond list \<Rightarrow> 'r list \<Rightarrow> 'r list" where
  "select_rows e col cs rs = filter (\<lambda>r. list_all (holds e (col r)) cs) rs"

fun insert_row :: "('r \<Rightarrow> 'r \<Rightarrow> bool) \<Rightarrow> 'r \<Rightarrow> 'r list \<Rightarrow> 'r list" where
  "insert_row le x [] = [x]"
| "insert_row le x (y # ys) = (if le x y then x # y # ys else y # insert_row le x ys)"

definition order_rows ::
  "engine \<Rightarrow> ('r \<Rightarrow> string \<Rightarrow> val option) \<Rightarrow> string \<times> bool \<Rightarrow> 'r list \<Rightarrow> 'r list" where
  "order_rows e col ord rs =
     foldr (insert_row (\<lambda>a b. if snd ord then val_le e (col a (fst ord)) (col b (fst ord))
                               else val_le e (col b (fst ord)) (col a (fst ord))))
           rs []"

fun apply_window :: "(jsnum \<times> jsnum) option \<Rightarrow> 'r list \<Rightarrow> 'r list" where
  "apply_window None rs = rs"
| "apply_window (Some (Num a, Num b)) rs = take (nat (b - a + 1)) (drop (nat a) rs)"
| "apply_window (Some _) rs = []"

datatype db_error = RequestRejected

definition exec ::
  "engine \<Rightarrow> ('r \<Rightarrow> string \<Rightarrow> val option) \<Rightarrow> query \<Rightarrow> 'r list \<Rightarrow> db_error + ('r list \<times> nat)" where
  "exec e col q rs =
     (let matched = select_rows e col (conds q) rs;
          n = length matched
      in if rejects e q n then Inl RequestRejected
         else Inr (apply_window (window q) (foldr (order_rows e col) (orders q) matched), n))"

definition data_or_empty :: "db_error + ('r list \<times> nat) \<Rightarrow> 'r list" where
  \<comment> \<open>\<open>result.data || []\<close>\<close>
  "data_or_empty res = (case res of Inl _ \<Rightarrow> [] | Inr (d, _) \<Rightarrow> d)"

definition count_or_zero :: "db_error + ('r list \<times> nat) \<Rightarrow> nat" where
  \<comment> \<open>\<open>count || 0\<close>\<close>
  "count_or_zero res = (case res of Inl _ \<Rightarrow> 0 | Inr (_, n) \<Rightarrow> n)"

section \<open>Search helpers\<close>

definition trim :: "string \<Rightarrow> string" where
  "trim s = rev (dropWhile is_white_space (rev (dropWhile is_white_space s)))"

definition parseSearchParams :: "URLSearchParams \<Rightarrow> string" where
  \<comment> \<open>the \<open>query\<close> field of the result\<close>
  "parseSearchParams searchParams =
     or_else (params_get searchParams ''q'') (or_else (params_get searchParams ''search'') [])"

definition buildSupabaseSearchQuery :: "string \<Rightarrow> string list \<Rightarrow> string" where
  "buildSupabaseSearchQuery query' columns =
     (if trim query' = [] \<or> length columns = 0 then []
      else (let searchTerm = ''%'' @ trim query' @ ''%''
            in join '','' (map (\<lambda>field. field @ ''.ilike.'' @ searchTerm) columns)))"

section \<open>Reading the filters of a request\<close>

text \<open>
  What the server process reads from outside the request and the database: the date
  range of each preset at the current time, the default start and end dates of the tax
  report (the \<open>YYYY-MM-DD\<close> part of the ISO time of the local 1 January, and of now),
  and the text a property inherited from \<open>Object.prototype\<close> turns into when it is
  used as a column name.
\<close>

record runtime =
  preset_range :: "string \<Rightarrow> DateRangeFilter"
  year_start :: string
  today :: string
  inherited_text :: "string \<Rightarrow> string"

definition date_presets :: "string list" where
  "date_presets =
     [ ''today'', ''yesterday'', ''last_7_days'', ''last_30_days'', ''last_90_days'',
       ''this_month'', ''last_month'', ''this_quarter'', ''last_quarter'',
       ''this_year'', ''last_year'' ]"

definition getDateRangeFromPreset :: "runtime \<Rightarrow> string \<Rightarrow> DateRangeFilter" where
  "getDateRangeFromPreset rt preset =
     (if preset \<in> set date_presets then preset_range rt preset
      else \<lparr> dateFrom = None, dateTo = None \<rparr>)"

definition parseFilterParams :: "runtime \<Rightarrow> URLSearchParams \<Rightarrow> FilterParams" where
  "parseFilterParams rt searchParams =
     (let statusParam = params_get searchParams ''status'';
          categoryParam = params_get searchParams ''category'';
          dateFrom' = params_get searchParams ''date_from'';
          dateTo' = params_get searchParams ''date_to'';
          datePreset = params_get searchParams ''date_preset'';
          search' = params_get searchParams ''q''
      in \<lparr> status =
             (case statusParam of
                None \<Rightarrow> None
              | Some s \<Rightarrow>
                  if s = [] then None
                  else Some (filter (\<lambda>x. x \<noteq> []) (split_on CHR '','' s))),
           category =
             (case categoryParam of
                None \<Rightarrow> None
              | Some s \<Rightarrow>
                  if s = [] then None
                  else Some (filter (\<lambda>x. x \<noteq> []) (split_on CHR '','' s))),
           dateRange =
             (case datePreset of
                Some p \<Rightarrow>
                  if p \<noteq> [] then Some (getDateRangeFromPreset rt p)
                  else if truthy dateFrom' \<or> truthy dateTo'
                  then Some \<lparr> dateFrom = dateFrom', dateTo = dateTo' \<rparr>
                  else None
              | None \<Rightarrow>
                  if truthy dateFrom' \<or> truthy dateTo'
                  then Some \<lparr> dateFrom = dateFrom', dateTo = dateTo' \<rparr>
                  else None),
           search = (if truthy search' then search' else None) \<rparr>)"

record FilterOptions =
  statusColumn :: "string option"
  categoryColumn :: "string option"
  dateColumn :: "string option"

definition applySupabaseFilters :: "query \<Rightarrow> FilterParams \<Rightarrow> FilterOptions \<Rightarrow> query" where
  "applySupabaseFilters q fs options =
     (let statusColumn' = (case statusColumn options of None \<Rightarrow> ''status'' | Some c \<Rightarrow> c);
          categoryColumn' = (case categoryColumn options of None \<Rightarrow> ''category'' | Some c \<Rightarrow> c);
          dateColumn' = (case dateColumn options of None \<Rightarrow> ''date'' | Some c \<Rightarrow> c);
          q1 = (case status fs of
                  None \<Rightarrow> q
                | Some st \<Rightarrow> if length st > 0 then q_in q statusColumn' st else q);
          q2 = (case category fs of
                  None \<Rightarrow> q1
                | Some ct \<Rightarrow> if length ct > 0 then q_in q1 categoryColumn' ct else q1);
          q3 = (case dateRange fs of
                  None \<Rightarrow> q2
                | Some dr \<Rightarrow>
                    (let q21 = (case dateFrom dr of
                                  None \<Rightarrow> q2
                                | Some f \<Rightarrow> if f = [] then q2 else q_gte q2 dateColumn' f)
                     in (case dateTo dr of
                           None \<Rightarrow> q21
                         | Some t \<Rightarrow> if t = [] then q21 else q_lte q21 dateColumn' t)))
      in q3)"

section \<open>Sorting a query\<close>

definition clientColumnMap :: "(string \<times> string) list" where
  "clientColumnMap =
     [ (''name'', ''name''), (''contact'', ''contact_person''), (''email'', ''email''),
       (''phone'', ''phone''), (''status'', ''status''), (''created'', ''created_at'') ]"

definition invoiceColumnMap :: "(string \<times> string) list" where
  "invoiceColumnMap =
     [ (''client'', ''bill_to_name''), (''amount'', ''total_amount''), (''status'', ''status''),
       (''date'', ''date''), (''invoice_number'', ''invoice_number''),
       (''created'', ''created_at'') ]"

definition mileageColumnMap :: "(string \<times> string) list" where
  "mileageColumnMap =
     [ (''date'', ''date''), (''purpose'', ''purpose''), (''miles'', ''miles''),
       (''rate'', ''rate_per_mile''), (''deduction'', ''total_deduction''),
       (''created'', ''created_at'') ]"

definition applySupabaseSorting ::
  "runtime \<Rightarrow> query \<Rightarrow> string \<Rightarrow> SortOrder \<Rightarrow> (string \<times> string) list \<Rightarrow> query" where
  "applySupabaseSorting rt q sortBy' sortOrder' columnMap =
     (let dbColumn =
            (case map_of columnMap sortBy' of
               Some c \<Rightarrow> if c = [] then sortBy' else c
             | None \<Rightarrow>
                 if sortBy' \<in> set Object_prototype_names then inherited_text rt sortBy'
                 else sortBy')
      in q_order q dbColumn (sortOrder' = Asc))"

section \<open>List loaders\<close>

text \<open>
  A request is taken after authentication: the id of the session's user and the search
  parameters of the URL. \<open>clients_loader\<close> is the loader of the clients list with
  life-cycle statuses and \<open>active_clients_loader\<close> the one that lists active clients;
  \<open>invoices_loader\<close>, \<open>mileage_loader\<close> and \<open>templates_loader\<close> are the loaders of
  the invoices, mileage and line-item-templates lists. A loader that throws returns
  \<open>Inl\<close>.
\<close>

record request =
  session_user_id :: string
  url_search :: URLSearchParams

datatype loader_error = LoadFailed string

record 'r ListData =
  items :: "'r list"
  totalCount :: nat
  currentPage :: jsnum
  itemsPerPage :: jsnum
  sortParams :: "SortParams option"
  filterParams :: "FilterParams option"
  savedViews :: "row list option"

definition search_or_undefined :: "string \<Rightarrow> string option" where
  \<comment> \<open>\<open>query || undefined\<close>\<close>
  "search_or_undefined query' = (if query' = [] then None else Some query')"

definition saved_views_of :: "engine \<Rightarrow> database \<Rightarrow> string \<Rightarrow> string \<Rightarrow> row list" where
  \<comment> \<open>the saved views of a table, then \<open>savedViews || []\<close>\<close>
  "saved_views_of e db uid table_name =
     data_or_empty
       (exec e row_col
          (q_order (q_eq (q_eq from_select ''user_id'' uid) ''table_name'' table_name)
             ''created_at'' False)
          (saved_views db))"

definition clients_loader ::
  "runtime \<Rightarrow> engine \<Rightarrow> database \<Rightarrow> request \<Rightarrow> loader_error + row ListData" where
  "clients_loader rt e db req =
     (let searchParams = url_search req;
          pp = parsePaginationParams searchParams;
          rg = getSupabaseRange (page pp) (limit pp);
          query' = parseSearchParams searchParams;
          sortParams' = parseSortParams searchParams ''created_at'' Desc;
          filterParams' = parseFilterParams rt searchParams;
          q0 = q_eq from_select ''user_id'' (session_user_id req);
          q1 = applySupabaseSorting rt q0 (or_else (sortBy sortParams') ''created_at'')
                 (sortOrder sortParams') clientColumnMap;
          q2 = applySupabaseFilters q1 filterParams'
                 \<lparr> statusColumn = Some ''status'', categoryColumn = None, dateColumn = None \<rparr>;
          q3 = (if query' \<noteq> []
                then q_or q2 (buildSupabaseSearchQuery query'
                                [''name'', ''email'', ''phone'', ''contact_person''])
                else q2);
          q4 = q_range q3 (range_from rg) (range_to rg)
      in case exec e row_col q4 (clients db) of
           Inl _ \<Rightarrow> Inl (LoadFailed ''Failed to load clients'')
         | Inr (data, n) \<Rightarrow>
             Inr \<lparr> items = data, totalCount = n,
                   currentPage = page pp, itemsPerPage = limit pp,
                   sortParams = Some sortParams',
                   filterParams = Some (filterParams' \<lparr> search := search_or_undefined query' \<rparr>),
                   savedViews = Some (saved_views_of e db (session_user_id req) ''clients'') \<rparr>)"

definition active_clients_loader ::
  "runtime \<Rightarrow> engine \<Rightarrow> database \<Rightarrow> request \<Rightarrow> loader_error + row ListData" where
  "active_clients_loader rt e db req =
     (let searchParams = url_search req;
          pp = parsePaginationParams searchParams;
          rg = getSupabaseRange (page pp) (limit pp);
          query' = parseSearchParams searchParams;
          q0 = q_order (q_eq (q_eq from_select ''user_id'' (session_user_id req))
                          ''is_active'' ''true'')
                 ''created_at'' False;
          q1 = (if query' \<noteq> []
                then q_or q0 (buildSupabaseSearchQuery query'
                                [''name'', ''email'', ''phone'', ''contact_person''])
                else q0);
          q2 = q_range q1 (range_from rg) (range_to rg)
      in case exec e row_col q2 (clients db) of
           Inl _ \<Rightarrow> Inl (LoadFailed ''Failed to load clients'')
         | Inr (data, n) \<Rightarrow>
             Inr \<lparr> items = data, totalCount = n,
                   currentPage = page pp, itemsPerPage = limit pp,
                   sortParams = None, filterParams = None, savedViews = None \<rparr>)"

definition invoices_loader ::
  "runtime \<Rightarrow> engine \<Rightarrow> database \<Rightarrow> request \<Rightarrow> loader_error + invoice_row ListData" where
  "invoices_loader rt e db req =
     (let searchParams = url_search req;
          pp = parsePaginationParams searchParams;
          rg = getSupabaseRange (page pp) (limit pp);
          query' = parseSearchParams searchParams;
          sortParams' = parseSortParams searchParams ''date'' Desc;
          filterParams' = parseFilterParams rt searchParams;
          q0 = q_eq from_select ''user_id'' (session_user_id req);
          q1 = applySupabaseSorting rt q0 (or_else (sortBy sortParams') ''date'')
                 (sortOrder sortParams') invoiceColumnMap;
          q2 = applySupabaseFilters q1 filterParams'
                 \<lparr> statusColumn = Some ''status'', categoryColumn = None,
                   dateColumn = Some ''date'' \<rparr>;
          q3 = (if query' \<noteq> []
                then q_or q2 (buildSupabaseSearchQuery query'
                                [''invoice_number'', ''bill_to_name'', ''bill_to_email'', ''notes''])
                else q2);
          q4 = q_range q3 (range_from rg) (range_to rg)
      in case exec e invoice_col q4 (invoices db) of
           Inl _ \<Rightarrow> Inl (LoadFailed ''Failed to load invoices'')
         | Inr (data, n) \<Rightarrow>
             Inr \<lparr> items = data, totalCount = n,
                   currentPage = page pp, itemsPerPage = limit pp,
                   sortParams = Some sortParams',
                   filterParams = Some (filterParams' \<lparr> search := search_or_undefined query' \<rparr>),
                   savedViews = Some (saved_views_of e db (session_user_id req) ''invoices'') \<rparr>)"

definition mileage_loader ::
  "runtime \<Rightarrow> engine \<Rightarrow> database \<Rightarrow> request \<Rightarrow> loader_error + mileage_row ListData" where
  "mileage_loader rt e db req =
     (let searchParams = url_search req;
          pp = parsePaginationParams searchParams;
          rg = getSupabaseRange (page pp) (limit pp);
          query' = parseSearchParams searchParams;
          sortParams' = parseSortParams searchParams ''date'' Desc;
          filterParams' = parseFilterParams rt searchParams;
          q0 = q_eq from_select ''user_id'' (session_user_id req);
          q1 = applySupabaseSorting rt q0 (or_else (sortBy sortParams') ''date'')
                 (sortOrder sortParams') mileageColumnMap;
          q2 = applySupabaseFilters q1 filterParams'
                 \<lparr> statusColumn = None, categoryColumn = None, dateColumn = Some ''date'' \<rparr>;
          q3 = (if query' \<noteq> []
                then q_or q2 (buildSupabaseSearchQuery query' [''purpose'', ''notes''])
                else q2);
          q4 = q_range q3 (range_from rg) (range_to rg)
      in case exec e mileage_col q4 (mileage db) of
           Inl _ \<Rightarrow> Inl (LoadFailed ''Failed to load mileage records'')
         | Inr (data, n) \<Rightarrow>
             Inr \<lparr> items = data, totalCount = n,
                   currentPage = page pp, itemsPerPage = limit pp,
                   sortParams = Some sortParams',
                   filterParams = Some (filterParams' \<lparr> search := search_or_undefined query' \<rparr>),
                   savedViews = Some (saved_views_of e db (session_user_id req) ''mileage'') \<rparr>)"

definition templates_loader ::
  "runtime \<Rightarrow> engine \<Rightarrow> database \<Rightarrow> request \<Rightarrow> loader_error + row ListData" where
  "templates_loader rt e db req =
     (let searchParams = url_search req;
          pp = parsePaginationParams searchParams;
          rg = getSupabaseRange (page pp) (limit pp);
          query' = parseSearchParams searchParams;
          q0 = q_order (q_eq from_select ''user_id'' (session_user_id req)) ''created_at'' False;
          q1 = (if query' \<noteq> []
                then q_or q0 (buildSupabaseSearchQuery query' [''name'', ''description''])
                else q0);
          q2 = q_range q1 (range_from rg) (range_to rg);
          res = exec e row_col q2 (line_item_templates db)
      in Inr \<lparr> items = data_or_empty res, totalCount = count_or_zero res,
               currentPage = page pp, itemsPerPage = limit pp,
               sortParams = None, filterParams = None, savedViews = None \<rparr>)"

section \<open>Tax report\<close>

record TaxStats =
  totalIncome :: rat
  totalExpenses :: rat
  totalMileageDeduction :: rat
  totalDeductions :: rat
  netProfit :: rat
  selfEmploymentTax :: rat
  estimatedIncomeTax :: rat
  totalEstimatedTax :: rat
  totalMileage :: rat
  expenseCount :: nat
  mileageRecordCount :: nat

definition null_as_zero :: "rat option \<Rightarrow> rat" where
  \<comment> \<open>the operand \<open>null\<close> of a numeric \<open>+\<close> counts as 0\<close>
  "null_as_zero a = (case a of None \<Rightarrow> 0 | Some x \<Rightarrow> x)"

definition taxDeductibleExpenses :: "expense_row list \<Rightarrow> expense_row list" where
  "taxDeductibleExpenses exps = filter (\<lambda>exp. is_tax_deductible exp = Some True) exps"

definition tax_stats ::
  "invoice_row list \<Rightarrow> expense_row list \<Rightarrow> mileage_row list \<Rightarrow> TaxStats" where
  "tax_stats invs exps mils =
     (let totalIncome' =
            foldl (\<lambda>sum inv. sum + inv_total inv) 0
              (filter (\<lambda>inv. inv_status inv = Some ''paid'') invs);
          totalExpenses' =
            foldl (\<lambda>sum exp. sum + null_as_zero (deductible_amount exp)) 0
              (taxDeductibleExpenses exps);
          totalMileage' = foldl (\<lambda>sum m. sum + miles m) 0 mils;
          totalMileageDeduction' = foldl (\<lambda>sum m. sum + null_as_zero (mil_total m)) 0 mils;
          totalDeductions' = totalExpenses' + totalMileageDeduction';
          netProfit' = totalIncome' - totalDeductions';
          selfEmploymentTax' = (if netProfit' > 0 then netProfit' * (153 / 1000) else 0);
          estimatedIncomeTax' =
            (if netProfit' > 0 then (netProfit' - selfEmploymentTax' / 2) * (22 / 100) else 0);
          totalEstimatedTax' = selfEmploymentTax' + estimatedIncomeTax'
      in \<lparr> totalIncome = totalIncome', totalExpenses = totalExpenses',
           totalMileageDeduction = totalMileageDeduction', totalDeductions = totalDeductions',
           netProfit = netProfit', selfEmploymentTax = selfEmploymentTax',
           estimatedIncomeTax = estimatedIncomeTax', totalEstimatedTax = totalEstimatedTax',
           totalMileage = totalMileage',
           expenseCount = length (taxDeductibleExpenses exps),
           mileageRecordCount = length mils \<rparr>)"

text \<open>
  The per-category dictionary keeps its keys in insertion order. A category named like
  a property inherited from \<open>Object.prototype\<close> never becomes a key: the lookup finds
  the inherited value, so no entry is created for it.
\<close>

fun category_add :: "string \<Rightarrow> rat \<Rightarrow> (string \<times> nat \<times> rat) list \<Rightarrow> (string \<times> nat \<times> rat) list" where
  "category_add k x [] = [(k, 1, 0 + x)]"
| "category_add k x ((k', n, t) # rest) =
     (if k' = k then (k', n + 1, t + x) # rest else (k', n, t) # category_add k x rest)"

definition group_by_category :: "expense_row list \<Rightarrow> (string \<times> nat \<times> rat) list" where
  "group_by_category exps =
     foldl (\<lambda>acc exp.
              (let category' = or_else (tax_category exp) ''uncategorized''
               in if category' \<in> set Object_prototype_names then acc
                  else category_add category' (null_as_zero (deductible_amount exp)) acc))
           [] exps"

record TaxReportData =
  stats :: TaxStats
  expensesByCategory :: "(string \<times> nat \<times> rat) list"
  startDate :: string
  endDate :: string

definition date_range_query :: "string \<Rightarrow> string \<Rightarrow> string \<Rightarrow> query" where
  \<comment> \<open>\<open>.select("*").eq("user_id", uid).gte("date", startDate).lte("date", endDate)\<close>\<close>
  "date_range_query uid start end' =
     q_lte (q_gte (q_eq from_select ''user_id'' uid) ''date'' start) ''date'' end'"

definition tax_report_loader :: "runtime \<Rightarrow> engine \<Rightarrow> database \<Rightarrow> request \<Rightarrow> TaxReportData" where
  "tax_report_loader rt e db req =
     (let startDate' = or_else (params_get (url_search req) ''startDate'') (year_start rt);
          endDate' = or_else (params_get (url_search req) ''endDate'') (today rt);
          q = date_range_query (session_user_id req) startDate' endDate';
          invs = data_or_empty (exec e invoice_col q (invoices db));
          exps = data_or_empty (exec e expense_col q (expenses db));
          mils = data_or_empty (exec e mileage_col q (mileage db))
      in \<lparr> stats = tax_stats invs exps mils,
           expensesByCategory = group_by_category (taxDeductibleExpenses exps),
           startDate = startDate', endDate = endDate' \<rparr>)"

section \<open>What a user owns\<close>

definition user_rows ::
  "engine \<Rightarrow> ('r \<Rightarrow> string \<Rightarrow> val option) \<Rightarrow> string \<Rightarrow> 'r list \<Rightarrow> 'r list" where
  "user_rows e col uid rs = filter (\<lambda>r. holds e (col r) (FEq ''user_id'' uid)) rs"

definition user_view :: "engine \<Rightarrow> string \<Rightarrow> database \<Rightarrow> database" where
  "user_view e uid db =
     \<lparr> clients = user_rows e row_col uid (clients db),
       saved_views = user_rows e row_col uid (saved_views db),
       line_item_templates = user_rows e row_col uid (line_item_templates db),
       invoices = user_rows e invoice_col uid (invoices db),
       expenses = user_rows e expense_col uid (expenses db),
       mileage = user_rows e mileage_col uid (mileage db) \<rparr>"



section \<open>A sample engine and runtime\<close>

text \<open>
  An engine that compares \<open>YYYY-MM-DD\<close> dates by their digits, matches every search
  string, keeps the order of the rows and rejects no request; and a runtime whose
  presets are empty.
\<close>

definition date_key :: "string \<Rightarrow> int" where
  "date_key s = digits_value (filter is_digit s)"

definition date_of :: "val \<Rightarrow> int" where
  "date_of v = (case v of VText s \<Rightarrow> date_key s | _ \<Rightarrow> 0)"

definition sample_engine :: engine where
  "sample_engine =
     \<lparr> lit_eq = (\<lambda>v l. False),
       cmp_gte = (\<lambda>v l. date_key l \<le> date_of v),
       cmp_lte = (\<lambda>v l. date_of v \<le> date_key l),
       or_holds = (\<lambda>s r. True),
       val_le = (\<lambda>a b. True),
       rejects = (\<lambda>q n. False) \<rparr>"

definition sample_runtime :: runtime where
  "sample_runtime =
     \<lparr> preset_range = (\<lambda>p. \<lparr> dateFrom = None, dateTo = None \<rparr>),
       year_start = ''2024-01-01'',
       today = ''2024-06-30'',
       inherited_text = (\<lambda>k. k) \<rparr>"

section \<open>Properties of the pagination helpers\<close>



text \<open>
  C9. \<open>parsePaginationParams\<close> clamps with \<open>Math.max(1, parseInt(...))\<close>. For a
  \<open>page\<close> parameter without a leading digit \<open>parseInt\<close> gives \<open>NaN\<close>, and
  \<open>Math.max(1, NaN)\<close> is \<open>NaN\<close>: the page returned for \<open>?page=abc\<close> is not \<open>\<ge> 1\<close>.
\<close>

theorem parsePaginationParams_non_numeric:
  "parsePaginationParams [(''page'', ''abc'')] = \<lparr> page = NaN, limit = Num 20 \<rparr>
   \<and> \<not> js_ge (page (parsePaginationParams [(''page'', ''abc'')])) (Num 1)"
  by (simp add: parsePaginationParams_def parseInt_def or_else_def params_get_def
      DEFAULT_PAGE_SIZE_def is_white_space_def is_digit_def digits_value_def)

section \<open>Properties of the sorting helpers\<close>

text \<open>
  C8. \<open>parseSortParams\<close> returns as \<open>sortBy\<close> the \<open>sort\<close> parameter when it is present
  and not empty, and the default column otherwise; as \<open>sortOrder\<close> the \<open>order\<close>
  parameter when it is exactly \<open>asc\<close> or \<open>desc\<close>, and the default order otherwise.
\<close>

theorem parseSortParams_defaults:
  "sortBy (parseSortParams ps defaultSortBy defaultSortOrder)
     = Some (case params_get ps ''sort'' of
               None \<Rightarrow> defaultSortBy
             | Some s \<Rightarrow> if s = [] then defaultSortBy else s)
   \<and> sortOrder (parseSortParams ps defaultSortBy defaultSortOrder)
     = (if params_get ps ''order'' = Some ''asc'' then Asc
        else if params_get ps ''order'' = Some ''desc'' then Desc
        else defaultSortOrder)"
  by (cases defaultSortOrder; simp add: parseSortParams_def or_else_def Let_def
      split: option.splits)

section \<open>Properties of the status badge\<close>


section \<open>Properties of the URL builders\<close>

lemma of_char_hex_digit:
  "n < 16 \<Longrightarrow> (of_char (hex_digit n) :: nat) = (if n < 10 then 48 + n else 55 + n)"
  by (simp add: hex_digit_def)

lemma unhex_hex: "n < 16 \<Longrightarrow> unhex (hex_digit n) = Some n"
  by (simp add: unhex_def of_char_hex_digit Let_def)

lemma hex_digit_plain:
  assumes "n < 16"
  shows "hex_digit n \<notin> {CHR ''&'', CHR ''='', CHR ''+'', CHR ''%''}"
proof
  assume "hex_digit n \<in> {CHR ''&'', CHR ''='', CHR ''+'', CHR ''%''}"
  then have "(of_char (hex_digit n) :: nat) \<in> {38, 61, 43, 37}" by auto
  with assms show False by (simp add: of_char_hex_digit split: if_splits)
qed

lemma of_char_div16: "(of_char c :: nat) div 16 < 16"
proof -
  have "(of_char c :: nat) < 256" by (rule nat_of_char_less_256)
  then show ?thesis by arith
qed

lemma unreserved_plain:
  "is_unreserved c \<Longrightarrow> c \<notin> {CHR ''&'', CHR ''='', CHR ''+'', CHR ''%''}"
  by (auto simp add: is_unreserved_def is_alnum_def Let_def)

lemma urldecode_encode_byte: "urldecode (encode_byte c @ rest) = c # urldecode rest"
proof (cases "is_unreserved c")
  case True
  with unreserved_plain [of c] show ?thesis by (simp add: encode_byte_def)
next
  case False
  show ?thesis
  proof (cases "c = CHR '' ''")
    case True
    with False show ?thesis by (simp add: encode_byte_def)
  next
    case nsp: False
    have "char_of (16 * ((of_char c :: nat) div 16) + (of_char c :: nat) mod 16) = c"
      by simp
    with False nsp show ?thesis
      by (simp add: encode_byte_def unhex_hex of_char_div16)
  qed
qed

lemma urldecode_urlencode: "urldecode (urlencode s @ rest) = s @ urldecode rest"
  by (induction s) (simp_all add: urlencode_def urldecode_encode_byte)

lemma encode_byte_plain: "set (encode_byte c) \<inter> {CHR ''&'', CHR ''=''} = {}"
  using unreserved_plain [of c] hex_digit_plain [of "of_char c div 16"]
    hex_digit_plain [of "of_char c mod 16"] of_char_div16 [of c]
  by (auto simp add: encode_byte_def)

lemma urlencode_plain: "set (urlencode s) \<inter> {CHR ''&'', CHR ''=''} = {}"
  using encode_byte_plain by (induction s) (auto simp add: urlencode_def)


lemma urldecode_urlencode_id: "urldecode (urlencode s) = s"
  using urldecode_urlencode [of s "[]"] by simp

lemma split_on_single: "d \<notin> set x \<Longrightarrow> split_on d x = [x]"
  by (induction x) auto

lemma split_on_append: "d \<notin> set x \<Longrightarrow> split_on d (x @ d # rest) = x # split_on d rest"
  by (induction x) auto

lemma split_on_join:
  "xs \<noteq> [] \<Longrightarrow> \<forall>x\<in>set xs. d \<notin> set x \<Longrightarrow> split_on d (join [d] xs) = xs"
proof (induction "[d]" xs rule: join.induct)
  case 1
  then show ?case by simp
next
  case (2 x)
  then show ?case by (simp add: split_on_single)
next
  case (3 x y ys)
  then show ?case by (simp add: split_on_append)
qed

lemma format_pair_plain: "CHR ''&'' \<notin> set (format_pair p)"
  using urlencode_plain [of "fst p"] urlencode_plain [of "snd p"]
  by (auto simp add: format_pair_def)

lemma format_pair_nonempty: "format_pair p \<noteq> []"
  by (simp add: format_pair_def)

lemma parse_format_pair: "parse_pair (format_pair p) = p"
proof -
  have k: "CHR ''='' \<notin> set (urlencode (fst p))"
    using urlencode_plain [of "fst p"] by auto
  then have "takeWhile (\<lambda>c. c \<noteq> CHR ''='') (urlencode (fst p) @ CHR ''='' # urlencode (snd p))
               = urlencode (fst p)"
    by (auto simp add: takeWhile_tail)
  moreover from k have "dropWhile (\<lambda>c. c \<noteq> CHR ''='') (urlencode (fst p) @ CHR ''='' # urlencode (snd p))
               = CHR ''='' # urlencode (snd p)"
    by (auto simp add: dropWhile_append3)
  ultimately show ?thesis
    by (simp add: parse_pair_def format_pair_def urldecode_urlencode_id)
qed

lemma params_parse_toString: "params_parse (params_toString ps) = ps"
proof (cases ps)
  case Nil
  then show ?thesis by (simp add: params_parse_def params_toString_def)
next
  case (Cons p ps')
  let ?xs = "map format_pair ps"
  have ts: "params_toString ps = join ''&'' ?xs"
    by (simp add: params_toString_def)
  have "split_on CHR ''&'' (join ''&'' ?xs) = ?xs"
    using Cons format_pair_plain by (intro split_on_join) auto
  moreover have "filter (\<lambda>x. x \<noteq> []) ?xs = ?xs"
    by (simp add: format_pair_nonempty)
  ultimately show ?thesis
    by (simp add: params_parse_def ts parse_format_pair o_def)
qed

lemma params_getAll_set: "params_getAll (params_set ps k v) k = [v]"
  by (induction ps) (auto simp add: params_getAll_def params_delete_def filter_empty_conv)

lemma params_get_set: "params_get (params_set ps k v) k = Some v"
  by (induction ps) (auto simp add: params_get_def)

lemma page_values_reset:
  "page_values (''?'' @ params_toString (params_set ps ''page'' ''1'')) = Some [''1'']"
  by (simp add: page_values_def params_parse_toString params_getAll_set)

text \<open>
  C10. Each of \<open>buildFilterUrl\<close>, \<open>buildSortUrl\<close>, \<open>buildUrlFromViewState\<close> and
  \<open>clearAllFilters\<close> returns a search string \<open>?...\<close> whose \<open>page\<close> parameter occurs
  once and has the value \<open>1\<close>, whatever the arguments are.
\<close>

theorem url_builders_reset_page:
  "page_values (buildFilterUrl currentParams filterKey filterValue) = Some [''1'']
   \<and> page_values (buildSortUrl currentParams column currentSortBy currentSortOrder) = Some [''1'']
   \<and> page_values (buildUrlFromViewState state baseParams) = Some [''1'']
   \<and> page_values (clearAllFilters currentParams preserveKeys) = Some [''1'']"
  by (simp add: buildSortUrl_def buildUrlFromViewState_def clearAllFilters_def
      Let_def page_values_reset del: append.simps)

section \<open>Properties of the saved views\<close>

lemma unhex_hex_lower: "n < 16 \<Longrightarrow> unhex (hex_lower n) = Some n"
  by (simp add: unhex_def hex_lower_def Let_def)

lemma unicode_escape_other: "u \<noteq> CHR ''u'' \<Longrightarrow> unicode_escape (b # u # r) = None"
  by (simp add: unicode_escape_def split: list.splits)

lemma control_div16: "(of_char c :: nat) < 32 \<Longrightarrow> (of_char c :: nat) div 16 < 16"
  by arith

lemma parse_chars_escape_char:
  "parse_chars (escape_char c @ tail)
     = map_option (\<lambda>(s, rest). (c # s, rest)) (parse_chars tail)"
proof -
  consider (short) "c \<in> {CHR 0x22, CHR 0x5C, CHR 0x08, CHR 0x0C, CHR 0x0A, CHR 0x0D, CHR 0x09}"
    | (control) "c \<notin> {CHR 0x22, CHR 0x5C, CHR 0x08, CHR 0x0C, CHR 0x0A, CHR 0x0D, CHR 0x09}"
        "(of_char c :: nat) < 32"
    | (plain) "c \<notin> {CHR 0x22, CHR 0x5C, CHR 0x08, CHR 0x0C, CHR 0x0A, CHR 0x0D, CHR 0x09}"
        "\<not> (of_char c :: nat) < 32"
    by blast
  then show ?thesis
  proof cases
    case short
    then show ?thesis
      by (auto simp add: escape_char_def unicode_escape_other simple_escape_def)
  next
    case control
    have code: "unicode_escape
            (CHR 0x5C # CHR ''u'' # CHR ''0'' # CHR ''0'' # hex_lower (of_char c div 16)
               # hex_lower (of_char c mod 16) # tail)
          = Some (of_char c, tail)"
    proof -
      have h0: "unhex CHR ''0'' = Some 0" by (simp add: unhex_def)
      have h1: "unhex (hex_lower (of_char c div 16)) = Some (of_char c div 16)"
        using control(2) by (intro unhex_hex_lower control_div16)
      have h2: "unhex (hex_lower (of_char c mod 16)) = Some (of_char c mod 16)"
        by (intro unhex_hex_lower) simp
      show ?thesis by (simp add: unicode_escape_def hex4_def h0 h1 h2)
    qed
    from control(2) have small: "\<not> 55296 \<le> (of_char c :: nat)" "utf8 (of_char c) = [c]"
      by (simp_all add: utf8_def)
    from control show ?thesis
      by (simp add: escape_char_def code small)
  next
    case plain
    then show ?thesis by (simp add: escape_char_def)
  qed
qed

lemma parse_chars_quoted:
  "parse_chars (concat (map escape_char s) @ CHR 0x22 # rest) = Some (s, rest)"
  by (induction s) (simp_all add: parse_chars_escape_char)


lemma stringify_head:
  "\<exists>c t. JSON_stringify j = c # t \<and> \<not> is_json_space c \<and> c \<noteq> CHR '']'' \<and> c \<noteq> CHR ''}''"
  by (cases j) (auto simp add: quote_def is_json_space_def)

lemma skip_ws_head: "\<not> is_json_space c \<Longrightarrow> skip_ws (c # t) = c # t"
  by (simp add: skip_ws_def)

lemma obj_put_new: "k \<notin> fst ` set acc \<Longrightarrow> obj_put k v acc = acc @ [(k, v)]"
  by (induction acc) auto

lemma foldl_obj_put:
  "distinct (map fst (acc @ kvs)) \<Longrightarrow>
     foldl (\<lambda>acc kv. obj_put (fst kv) (snd kv) acc) acc kvs = acc @ kvs"
proof (induction kvs arbitrary: acc)
  case Nil
  then show ?case by simp
next
  case (Cons kv kvs)
  from Cons.prems have new: "fst kv \<notin> fst ` set acc" by auto
  from Cons.prems have "distinct (map fst ((acc @ [kv]) @ kvs))" by simp
  from Cons.IH [OF this] new show ?case by (simp add: obj_put_new)
qed

lemma make_object_distinct: "distinct (map fst kvs) \<Longrightarrow> make_object kvs = JObject kvs"
  using foldl_obj_put [of "[]" kvs] by (simp add: make_object_def)

lemma parse_elements_join:
  assumes "\<forall>x \<in> set xs. parses_back x" and "xs \<noteq> []"
    and "length (join '','' (map JSON_stringify xs)) < n"
  shows "parse_elements n (join '','' (map JSON_stringify xs) @ CHR '']'' # rest) = Some (xs, rest)"
  using assms
proof (induction xs arbitrary: n)
  case Nil
  then show ?case by simp
next
  case (Cons x xs)
  from Cons.prems(3) obtain m where n: "n = Suc m" by (cases n) auto
  from Cons.prems(1) have x: "parses_back x" by simp
  show ?case
  proof (cases xs)
    case Nil
    with Cons.prems(3) n have "length (JSON_stringify x) \<le> m" by simp
    with x have "parse_value m (JSON_stringify x @ CHR '']'' # rest) = Some (x, CHR '']'' # rest)"
      by (simp add: parses_back_def)
    with Nil n show ?thesis
      by (simp add: skip_ws_head is_json_space_def)
  next
    case (Cons y ys)
    let ?tail = "join '','' (map JSON_stringify xs) @ CHR '']'' # rest"
    from Cons Cons.prems(3) n have lx: "length (JSON_stringify x) \<le> m"
      and lt: "length (join '','' (map JSON_stringify xs)) < m"
      by simp_all
    from x lx have "parse_value m (JSON_stringify x @ CHR '','' # ?tail) = Some (x, CHR '','' # ?tail)"
      by (simp add: parses_back_def)
    moreover from Cons.prems(1) Cons lt have "parse_elements m ?tail = Some (xs, rest)"
      by (intro Cons.IH) simp_all
    ultimately show ?thesis
      using Cons n by (simp add: skip_ws_head is_json_space_def)
  qed
qed

lemma parse_members_join:
  assumes "\<forall>kv \<in> set kvs. parses_back (snd kv)" and "kvs \<noteq> []"
    and "length (join '','' (map member_text kvs)) < n"
  shows "parse_members n (join '','' (map member_text kvs) @ CHR ''}'' # rest) = Some (kvs, rest)"
  using assms
proof (induction kvs arbitrary: n)
  case Nil
  then show ?case by simp
next
  case (Cons kv kvs)
  from Cons.prems(3) obtain m where n: "n = Suc m" by (cases n) auto
  from Cons.prems(1) have v: "parses_back (snd kv)" by simp
  have key: "parse_chars (concat (map escape_char (fst kv)) @ CHR 0x22 # t) = Some (fst kv, t)" for t
    by (rule parse_chars_quoted)
  have head: "member_text kv @ t
                = CHR 0x22 # concat (map escape_char (fst kv)) @ CHR 0x22 # CHR '':''
                    # JSON_stringify (snd kv) @ t" for t
    by (simp add: member_text_def quote_def)
  show ?case
  proof (cases kvs)
    case Nil
    with Cons.prems(3) n have "length (JSON_stringify (snd kv)) \<le> m"
      by (simp add: member_text_def)
    with v have "parse_value m (JSON_stringify (snd kv) @ CHR ''}'' # rest)
                   = Some (snd kv, CHR ''}'' # rest)"
      by (simp add: parses_back_def)
    with Nil n show ?thesis
      by (simp add: head key skip_ws_head is_json_space_def)
  next
    case (Cons kv' kvs')
    let ?tail = "join '','' (map member_text kvs) @ CHR ''}'' # rest"
    have "length (JSON_stringify (snd kv)) \<le> length (member_text kv)"
      by (simp add: member_text_def)
    with Cons Cons.prems(3) n have lv: "length (JSON_stringify (snd kv)) \<le> m"
      and lt: "length (join '','' (map member_text kvs)) < m"
      by simp_all
    from v lv have "parse_value m (JSON_stringify (snd kv) @ CHR '','' # ?tail)
                      = Some (snd kv, CHR '','' # ?tail)"
      by (simp add: parses_back_def)
    moreover from Cons.prems(1) Cons lt have "parse_members m ?tail = Some (kvs, rest)"
      by (intro Cons.IH) simp_all
    ultimately show ?thesis
      using Cons n by (simp add: head key skip_ws_head is_json_space_def)
  qed
qed

lemma parse_value_roundtrip: "distinct_keys j \<Longrightarrow> parses_back j"
proof (induction j)
  case JNull
  show ?case
    unfolding parses_back_def
  proof (intro allI impI)
    fix n rest
    assume "length (JSON_stringify JNull) \<le> n"
    then obtain m where n: "n = Suc m" by (cases n) auto
    show "parse_value n (JSON_stringify JNull @ rest) = Some (JNull, rest)"
      unfolding n by (simp add: skip_ws_head is_json_space_def strip_prefix_def)
  qed
next
  case (JBool b)
  show ?case
    unfolding parses_back_def
  proof (intro allI impI)
    fix n rest
    assume "length (JSON_stringify (JBool b)) \<le> n"
    then obtain m where n: "n = Suc m" by (cases n; cases b) auto
    show "parse_value n (JSON_stringify (JBool b) @ rest) = Some (JBool b, rest)"
      unfolding n by (cases b) (simp_all add: skip_ws_head is_json_space_def strip_prefix_def)
  qed
next
  case (JString s)
  show ?case
    unfolding parses_back_def
  proof (intro allI impI)
    fix n rest
    assume "length (JSON_stringify (JString s)) \<le> n"
    then obtain m where n: "n = Suc m" by (cases n) (auto simp add: quote_def)
    show "parse_value n (JSON_stringify (JString s) @ rest) = Some (JString s, rest)"
      unfolding n
      by (simp add: quote_def skip_ws_head is_json_space_def parse_chars_quoted)
  qed
next
  case (JArray xs)
  then have elems: "\<forall>x \<in> set xs. parses_back x" by simp
  show ?case
    unfolding parses_back_def
  proof (intro allI impI)
    fix n rest
    assume len: "length (JSON_stringify (JArray xs)) \<le> n"
    then obtain m where n: "n = Suc m" by (cases n) auto
    show "parse_value n (JSON_stringify (JArray xs) @ rest) = Some (JArray xs, rest)"
    proof (cases xs)
      case Nil
      with n show ?thesis by (simp add: skip_ws_head is_json_space_def)
    next
      case (Cons y ys)
      from stringify_head [of y] obtain c t where
        y: "JSON_stringify y = c # t" "\<not> is_json_space c" "c \<noteq> CHR '']''" by blast
      from Cons y(1) obtain t' where
        hd: "join '','' (map JSON_stringify xs) = c # t'"
        by (cases ys) auto
      from len n have "length (join '','' (map JSON_stringify xs)) < m" by simp
      with elems Cons have
        "parse_elements m (join '','' (map JSON_stringify xs) @ CHR '']'' # rest) = Some (xs, rest)"
        by (intro parse_elements_join) simp_all
      with n hd y show ?thesis
        by (simp add: skip_ws_head is_json_space_def)
    qed
  qed
next
  case (JObject kvs)
  then have members: "\<forall>kv \<in> set kvs. parses_back (snd kv)"
    by (auto simp add: snds.simps)
  from JObject.prems have keys: "distinct (map fst kvs)" by simp
  have shape: "JSON_stringify (JObject kvs) = ''{'' @ join '','' (map member_text kvs) @ ''}''"
    by (simp add: member_text_def [abs_def])
  show ?case
    unfolding parses_back_def
  proof (intro allI impI)
    fix n rest
    assume len: "length (JSON_stringify (JObject kvs)) \<le> n"
    then obtain m where n: "n = Suc m" by (cases n) auto
    show "parse_value n (JSON_stringify (JObject kvs) @ rest) = Some (JObject kvs, rest)"
    proof (cases kvs)
      case Nil
      with n show ?thesis by (simp add: skip_ws_head is_json_space_def)
    next
      case (Cons kv kvs')
      from Cons obtain t' where
        hd: "join '','' (map member_text kvs) = CHR 0x22 # t'"
        by (cases kvs') (auto simp add: member_text_def quote_def)
      from len n have "length (join '','' (map member_text kvs)) < m"
        unfolding shape by simp
      with members Cons have
        "parse_members m (join '','' (map member_text kvs) @ CHR ''}'' # rest) = Some (kvs, rest)"
        by (intro parse_members_join) simp_all
      with n hd keys show ?thesis
        unfolding shape by (simp add: skip_ws_head is_json_space_def make_object_distinct)
    qed
  qed
qed

lemma JSON_parse_stringify:
  assumes "distinct_keys j"
  shows "JSON_parse (JSON_stringify j) = Some j"
proof -
  from assms have "parses_back j" by (rule parse_value_roundtrip)
  then have "length (JSON_stringify j) \<le> Suc (length (JSON_stringify j)) \<longrightarrow>
      parse_value (Suc (length (JSON_stringify j))) (JSON_stringify j @ []) = Some (j, [])"
    unfolding parses_back_def by blast
  then have "parse_value (Suc (length (JSON_stringify j))) (JSON_stringify j) = Some (j, [])"
    by (simp del: parse_value.simps)
  then show ?thesis
    by (simp add: JSON_parse_def skip_ws_def del: parse_value.simps)
qed

lemma distinct_keys_ViewState: "distinct_keys (js_of_ViewState s)"
  by (simp add: js_of_ViewState_def js_of_FilterParams_def js_of_SortParams_def
      js_of_DateRangeFilter_def optional_member_def js_text_def
      split: option.splits)

lemma js_of_ViewState_inj: "inj js_of_ViewState"
proof (rule injI)
  fix s t :: ViewState
  assume eq: "js_of_ViewState s = js_of_ViewState t"
  have order_inj: "SortOrder_text a = SortOrder_text b \<Longrightarrow> a = b" for a b
    by (cases a; cases b) simp_all
  have text_inj: "js_text a = js_text b \<Longrightarrow> a = b" for a b
    by (cases a; cases b) (simp_all add: js_text_def)
  from eq have f: "js_of_FilterParams (filters s) = js_of_FilterParams (filters t)"
    and p: "js_of_SortParams (sort' s) = js_of_SortParams (sort' t)"
    by (simp_all add: js_of_ViewState_def)
  from p have "sort' s = sort' t"
    by (auto simp add: js_of_SortParams_def dest!: order_inj text_inj)
  moreover from f have "filters s = filters t"
    by (cases "status (filters s)"; cases "status (filters t)";
        cases "category (filters s)"; cases "category (filters t)";
        cases "dateRange (filters s)"; cases "dateRange (filters t)";
        cases "search (filters s)"; cases "search (filters t)")
       (auto simp add: js_of_FilterParams_def optional_member_def js_of_DateRangeFilter_def
          inj_map_eq_map inj_on_def dest!: text_inj)
  ultimately show "s = t" by simp
qed

text \<open>
  C6. Encoding a view state and decoding the text gives the view state back: the
  decoded value is the object of the state that was encoded, and of no other state.
\<close>

theorem view_state_roundtrip:
  "decodeViewState (encodeViewState (js_of_ViewState s)) = js_of_ViewState s
   \<and> (js_of_ViewState t = decodeViewState (encodeViewState (js_of_ViewState s))) = (t = s)"
proof -
  have decoded: "decodeViewState (encodeViewState (js_of_ViewState s)) = js_of_ViewState s"
    by (simp add: decodeViewState_def encodeViewState_def JSON_parse_stringify
        distinct_keys_ViewState)
  moreover have "(js_of_ViewState t = js_of_ViewState s) = (t = s)"
    using js_of_ViewState_inj by (auto dest: injD)
  ultimately show ?thesis by simp
qed

section \<open>Properties of the generated columns and of the tax report\<close>

lemma round_scale_close: "\<bar>round_scale s x - x\<bar> \<le> 1 / (2 * 10 ^ s)"
proof -
  define y where "y = \<bar>x\<bar> * 10 ^ s"
  define k where "k = \<lfloor>y + 1 / 2\<rfloor>"
  have p: "(10::rat) ^ s > 0" by simp
  have k1: "of_int k \<le> y + 1 / 2" unfolding k_def by (rule of_int_floor_le)
  have k2: "y + 1 / 2 < of_int k + 1" unfolding k_def by linarith
  have d: "\<bar>of_int k - y\<bar> \<le> 1 / 2" using k1 k2 by linarith
  have "round_scale s x - x = sgn x * ((of_int k - y) / 10 ^ s)"
    unfolding round_scale_def k_def y_def
    by (cases "x = 0") (simp_all add: field_simps sgn_if abs_if)
  then have "\<bar>round_scale s x - x\<bar> = \<bar>sgn x\<bar> * (\<bar>of_int k - y\<bar> / 10 ^ s)"
    by (simp add: abs_mult)
  also have "\<dots> \<le> 1 * (\<bar>of_int k - y\<bar> / 10 ^ s)"
    by (intro mult_right_mono) (simp_all add: sgn_if)
  also have "\<dots> = \<bar>of_int k - y\<bar> / 10 ^ s" by simp
  also have "\<dots> \<le> (1 / 2) / 10 ^ s"
    using d p by (intro divide_right_mono) simp_all
  finally show ?thesis by (simp add: field_simps)
qed

lemma round_scale_exact: "round_scale s (of_int n / 10 ^ s) = of_int n / 10 ^ s"
proof -
  have "\<bar>of_int n / 10 ^ s :: rat\<bar> * 10 ^ s = of_int \<bar>n\<bar>"
    by (simp add: abs_divide)
  moreover have "\<lfloor>(of_int \<bar>n\<bar> :: rat) + 1 / 2\<rfloor> = \<bar>n\<bar>"
    by (rule floor_unique) auto
  ultimately have "\<lfloor>\<bar>of_int n / 10 ^ s :: rat\<bar> * 10 ^ s + 1 / 2\<rfloor> = \<bar>n\<bar>"
    by (simp only:)
  moreover have "sgn (of_int n / 10 ^ s :: rat) = of_int (sgn n)"
    by (auto simp add: sgn_if zero_less_divide_iff divide_less_0_iff)
  ultimately show ?thesis
    unfolding round_scale_def by (simp add: sgn_if abs_if)
qed

lemma floor_numeral_div:
  "\<lfloor>(numeral a :: rat) / numeral b\<rfloor> = numeral a div numeral b"
  using floor_divide_of_int_eq [of "numeral a" "numeral b", where ?'a = rat] by simp

lemma store_numeric_Some:
  "store_numeric p s (Some x) = Inr (Some d) \<Longrightarrow> d = round_scale s x"
  by (simp add: store_numeric_def split: if_splits)

text \<open>
  C2, as stated: the deductible amount of an expense equals its total multiplied by the
  business-use percentage taken as a fraction of 100. The column keeps two decimal
  places, so for a total of 10.01 at 33 percent it holds 3.30, not 3.3033.
\<close>

theorem deductible_amount_not_exact:
  "expenses_deductible_amount (1001 / 100) (Some 33)
     \<noteq> Inr (Some ((1001 / 100) * (33 / 100)))"
  by (simp add: expenses_deductible_amount_def store_numeric_def round_scale_def
      floor_numeral_div)

text \<open>
  C2, amended: for an expense with a business-use percentage, the deductible amount is
  the total multiplied by percentage/100, rounded to two decimal places: it differs
  from the exact product by at most half a cent, and equals it whenever the product has
  no more than two decimal places.
\<close>

theorem deductible_amount_rounded:
  assumes "expenses_deductible_amount t (Some pct) = Inr (Some d)"
  shows "d = round_scale 2 (t * (pct / 100))
         \<and> \<bar>d - t * (pct / 100)\<bar> \<le> 1 / 200
         \<and> (\<forall>n. t * (pct / 100) = of_int n / 100 \<longrightarrow> d = t * (pct / 100))"
proof -
  from assms have d: "d = round_scale 2 (t * (pct / 100))"
    by (simp add: expenses_deductible_amount_def store_numeric_Some)
  moreover have "\<bar>round_scale 2 (t * (pct / 100)) - t * (pct / 100)\<bar> \<le> 1 / 200"
    using round_scale_close [of 2 "t * (pct / 100)"] by simp
  moreover have "round_scale 2 (of_int n / 100) = of_int n / 100" for n
    using round_scale_exact [of 2 n] by simp
  ultimately show ?thesis by metis
qed

theorem deductible_amount_rounded_witness:
  "expenses_deductible_amount (1001 / 100) (Some 33) = Inr (Some (33 / 10))
   \<and> \<bar>33 / 10 - (1001 / 100) * (33 / 100 :: rat)\<bar> \<le> 1 / 200"
proof -
  have h: "expenses_deductible_amount (1001 / 100) (Some 33) = Inr (Some (33 / 10))"
    by (simp add: expenses_deductible_amount_def store_numeric_def round_scale_def
        floor_numeral_div)
  from deductible_amount_rounded [OF h] h show ?thesis by simp
qed


lemma select_rows_user:
  "FEq ''user_id'' uid \<in> set cs \<Longrightarrow>
     select_rows e col cs (user_rows e col uid rs) = select_rows e col cs rs"
  by (induction rs) (auto simp add: select_rows_def user_rows_def list_all_iff)

lemma exec_user_rows:
  "FEq ''user_id'' uid \<in> set (conds q) \<Longrightarrow>
     exec e col q (user_rows e col uid rs) = exec e col q rs"
  by (simp add: exec_def select_rows_user)

lemma conds_builders [simp]:
  "conds from_select = []"
  "conds (q_eq q c v) = conds q @ [FEq c v]"
  "conds (q_in q c vs) = conds q @ [FIn c vs]"
  "conds (q_gte q c v) = conds q @ [FGte c v]"
  "conds (q_lte q c v) = conds q @ [FLte c v]"
  "conds (q_or q s) = conds q @ [FOr s]"
  "conds (q_order q c a) = conds q"
  "conds (q_range q x y) = conds q"
  by (simp_all add: from_select_def q_eq_def q_in_def q_gte_def q_lte_def q_or_def
      q_order_def q_range_def q_filter_def)

lemma conds_applySupabaseSorting [simp]:
  "conds (applySupabaseSorting rt q sb so cm) = conds q"
  by (simp add: applySupabaseSorting_def Let_def)

lemma conds_applySupabaseFilters:
  "c \<in> set (conds q) \<Longrightarrow> c \<in> set (conds (applySupabaseFilters q fs options))"
  by (simp add: applySupabaseFilters_def Let_def split: option.splits)

lemma user_view_sel [simp]:
  "clients (user_view e uid db) = user_rows e row_col uid (clients db)"
  "saved_views (user_view e uid db) = user_rows e row_col uid (saved_views db)"
  "line_item_templates (user_view e uid db) = user_rows e row_col uid (line_item_templates db)"
  "invoices (user_view e uid db) = user_rows e invoice_col uid (invoices db)"
  "expenses (user_view e uid db) = user_rows e expense_col uid (expenses db)"
  "mileage (user_view e uid db) = user_rows e mileage_col uid (mileage db)"
  by (simp_all add: user_view_def)

lemma saved_views_of_user_view:
  "saved_views_of e (user_view e uid db) uid t = saved_views_of e db uid t"
  by (simp add: saved_views_of_def exec_user_rows)

lemma clients_loader_user_view:
  "clients_loader rt e (user_view e (session_user_id req) db) req = clients_loader rt e db req"
  by (simp add: clients_loader_def Let_def exec_user_rows conds_applySupabaseFilters
      saved_views_of_user_view cong: sum.case_cong)

lemma active_clients_loader_user_view:
  "active_clients_loader rt e (user_view e (session_user_id req) db) req
     = active_clients_loader rt e db req"
  by (simp add: active_clients_loader_def Let_def exec_user_rows)

lemma invoices_loader_user_view:
  "invoices_loader rt e (user_view e (session_user_id req) db) req = invoices_loader rt e db req"
  by (simp add: invoices_loader_def Let_def exec_user_rows conds_applySupabaseFilters
      saved_views_of_user_view cong: sum.case_cong)

lemma mileage_loader_user_view:
  "mileage_loader rt e (user_view e (session_user_id req) db) req = mileage_loader rt e db req"
  by (simp add: mileage_loader_def Let_def exec_user_rows conds_applySupabaseFilters
      saved_views_of_user_view cong: sum.case_cong)

lemma templates_loader_user_view:
  "templates_loader rt e (user_view e (session_user_id req) db) req = templates_loader rt e db req"
  by (simp add: templates_loader_def Let_def exec_user_rows)

lemma tax_report_loader_user_view:
  "tax_report_loader rt e (user_view e (session_user_id req) db) req = tax_report_loader rt e db req"
  by (simp add: tax_report_loader_def Let_def exec_user_rows date_range_query_def)







section \<open>Tenant isolation of the loaders\<close>

text \<open>
  C5. Every list loader, and the tax report, restricts each of its queries to the rows
  whose \<open>user_id\<close> is the id of the session's user. So for two database states with
  the same rows of that user in every table, each loader returns the same response
  data, whatever the rows of the other users are.
\<close>

theorem loaders_noninterference:
  assumes "user_view e (session_user_id req) db1 = user_view e (session_user_id req) db2"
  shows "clients_loader rt e db1 req = clients_loader rt e db2 req
         \<and> active_clients_loader rt e db1 req = active_clients_loader rt e db2 req
         \<and> invoices_loader rt e db1 req = invoices_loader rt e db2 req
         \<and> mileage_loader rt e db1 req = mileage_loader rt e db2 req
         \<and> templates_loader rt e db1 req = templates_loader rt e db2 req
         \<and> tax_report_loader rt e db1 req = tax_report_loader rt e db2 req"
proof -
  have "clients_loader rt e db1 req = clients_loader rt e db2 req"
    using assms clients_loader_user_view [of rt e req db1]
      clients_loader_user_view [of rt e req db2] by simp
  moreover have "active_clients_loader rt e db1 req = active_clients_loader rt e db2 req"
    using assms active_clients_loader_user_view [of rt e req db1]
      active_clients_loader_user_view [of rt e req db2] by simp
  moreover have "invoices_loader rt e db1 req = invoices_loader rt e db2 req"
    using assms invoices_loader_user_view [of rt e req db1]
      invoices_loader_user_view [of rt e req db2] by simp
  moreover have "mileage_loader rt e db1 req = mileage_loader rt e db2 req"
    using assms mileage_loader_user_view [of rt e req db1]
      mileage_loader_user_view [of rt e req db2] by simp
  moreover have "templates_loader rt e db1 req = templates_loader rt e db2 req"
    using assms templates_loader_user_view [of rt e req db1]
      templates_loader_user_view [of rt e req db2] by simp
  moreover have "tax_report_loader rt e db1 req = tax_report_loader rt e db2 req"
    using assms tax_report_loader_user_view [of rt e req db1]
      tax_report_loader_user_view [of rt e req db2] by simp
  ultimately show ?thesis by simp
qed

theorem loaders_noninterference_witness:
  "clients_loader sample_runtime sample_engine
     \<lparr> clients = [ [(''user_id'', VText ''u1''), (''name'', VText ''Ann'')],
                   [(''user_id'', VText ''u2''), (''name'', VText ''Bob'')] ],
       saved_views = [], line_item_templates = [], invoices = [], expenses = [], mileage = [] \<rparr>
     \<lparr> session_user_id = ''u1'', url_search = [] \<rparr>
   = clients_loader sample_runtime sample_engine
     \<lparr> clients = [ [(''user_id'', VText ''u1''), (''name'', VText ''Ann'')],
                   [(''user_id'', VText ''u3''), (''name'', VText ''Eve'')],
                   [(''user_id'', VText ''u2''), (''name'', VText ''Rob'')] ],
       saved_views = [ [(''user_id'', VText ''u2''), (''table_name'', VText ''clients'')] ],
       line_item_templates = [], invoices = [], expenses = [], mileage = [] \<rparr>
     \<lparr> session_user_id = ''u1'', url_search = [] \<rparr>"
proof -
  let ?db1 = "\<lparr> clients = [ [(''user_id'', VText ''u1''), (''name'', VText ''Ann'')],
                   [(''user_id'', VText ''u2''), (''name'', VText ''Bob'')] ],
       saved_views = [], line_item_templates = [], invoices = [], expenses = [],
       mileage = [] \<rparr>"
  let ?db2 = "\<lparr> clients = [ [(''user_id'', VText ''u1''), (''name'', VText ''Ann'')],
                   [(''user_id'', VText ''u3''), (''name'', VText ''Eve'')],
                   [(''user_id'', VText ''u2''), (''name'', VText ''Rob'')] ],
       saved_views = [ [(''user_id'', VText ''u2''), (''table_name'', VText ''clients'')] ],
       line_item_templates = [], invoices = [], expenses = [], mileage = [] \<rparr>"
  let ?req = "\<lparr> session_user_id = ''u1'', url_search = [] \<rparr>"
  have same: "user_view sample_engine (session_user_id ?req) ?db1
                = user_view sample_engine (session_user_id ?req) ?db2"
    by (simp add: user_view_def user_rows_def row_col_def val_eq_def)
  from loaders_noninterference [OF same, of sample_runtime] show ?thesis by blast
qed

end
